theory Spec2Isabelle
  imports Main "HOL-Library.Multiset"
begin

section \<open>Python strings\<close>

text \<open>
  A Python \<open>str\<close> is a sequence of Unicode code points; the regular expressions and
  \<open>str.strip\<close> of the program count and classify code points.  A string is therefore
  a list of code points, and \<open>lit\<close> turns an ASCII literal into one.
\<close>

type_synonym pystr = "nat list"

definition lit :: "string \<Rightarrow> pystr" where
  "lit s = map of_char s"

text \<open>The character class \<open>[a-zA-Z0-9_-]\<close> of both patterns of \<open>extract_video_id\<close>.\<close>

definition is_id_char :: "nat \<Rightarrow> bool" where
  "is_id_char c =
     ((97 \<le> c \<and> c \<le> 122) \<or> (65 \<le> c \<and> c \<le> 90) \<or> (48 \<le> c \<and> c \<le> 57)
      \<or> c = 95 \<or> c = 45)"

text \<open>
  Python's whitespace (\<open>str.isspace\<close>, which is also what \<open>\s\<close> matches in a
  \<open>str\<close> pattern and what \<open>str.strip()\<close> removes).
\<close>

definition is_space :: "nat \<Rightarrow> bool" where
  "is_space c =
     ((9 \<le> c \<and> c \<le> 13) \<or> (28 \<le> c \<and> c \<le> 32) \<or> c = 133 \<or> c = 160 \<or> c = 5760
      \<or> (8192 \<le> c \<and> c \<le> 8202) \<or> c = 8232 \<or> c = 8233 \<or> c = 8239 \<or> c = 8287
      \<or> c = 12288)"

definition starts_with :: "pystr \<Rightarrow> pystr \<Rightarrow> bool" where
  "starts_with p s = (take (length p) s = p)"

definition ends_with :: "pystr \<Rightarrow> pystr \<Rightarrow> bool" where
  "ends_with p s = (length p \<le> length s \<and> drop (length s - length p) s = p)"

text \<open>\<open>str.strip()\<close>: leading and trailing whitespace removed.\<close>

definition py_strip :: "pystr \<Rightarrow> pystr" where
  "py_strip s = rev (dropWhile is_space (rev (dropWhile is_space s)))"

text \<open>\<open>sep.join(xs)\<close>.\<close>

fun py_join :: "pystr \<Rightarrow> pystr list \<Rightarrow> pystr" where
  "py_join sep [] = []"
| "py_join sep [x] = x"
| "py_join sep (x # y # ys) = x @ sep @ py_join sep (y # ys)"

section \<open>Exceptions\<close>

text \<open>
  An exception is its class and the text \<open>str(e)\<close>.  \<open>ServiceError\<close> stands for any
  \<open>Exception\<close> raised inside an external service (transcript or model service);
  signals that are not \<open>Exception\<close>s (KeyboardInterrupt, SystemExit) are not modelled.
\<close>

datatype exn_kind =
    ValueError | KeyError | IndexError | AttributeError | TypeError
  | JSONDecodeError | FileNotFoundError | UnicodeEncodeError | ServiceError
  | HTTPException nat

datatype exn = Exn exn_kind pystr

fun exn_str :: "exn \<Rightarrow> pystr" where
  "exn_str (Exn k m) = m"

section \<open>Identifier extraction\<close>

text \<open>
  \<^verbatim>\<open>
  def extract_video_id(url: str) -> str:
      patterns = [
          r'(?:v=|/v/|youtu\.be/)([a-zA-Z0-9_-]{11})',
          r'^([a-zA-Z0-9_-]{11})$'
      ]
      for pattern in patterns:
          match = re.search(pattern, url)
          if match:
              return match.group(1)
      raise ValueError(f"... {url}")
  \<close>
  The same function stands in \<open>agent.py\<close> and in \<open>server.py\<close>.
\<close>

definition URL_PREFIXES :: "pystr list" where
  "URL_PREFIXES = [lit ''v='', lit ''/v/'', lit ''youtu.be/'']"

text \<open>The group \<open>([a-zA-Z0-9_-]{11})\<close> matched at the head of \<open>s\<close>.\<close>

definition match_id11 :: "pystr \<Rightarrow> pystr option" where
  "match_id11 s =
     (let t = take 11 s in if length t = 11 \<and> list_all is_id_char t then Some t else None)"

text \<open>The alternatives of the first pattern tried in order at the head of \<open>s\<close>.\<close>

fun match_alternatives :: "pystr list \<Rightarrow> pystr \<Rightarrow> pystr option" where
  "match_alternatives [] s = None"
| "match_alternatives (p # ps) s =
     (if starts_with p s then
        (case match_id11 (drop (length p) s) of
           Some t \<Rightarrow> Some t
         | None \<Rightarrow> match_alternatives ps s)
      else match_alternatives ps s)"

text \<open>\<open>re.search\<close> with the first pattern: the leftmost position where it matches.\<close>

fun search_url :: "pystr \<Rightarrow> pystr option" where
  "search_url [] = match_alternatives URL_PREFIXES []"
| "search_url (c # s) =
     (case match_alternatives URL_PREFIXES (c # s) of
        Some t \<Rightarrow> Some t
      | None \<Rightarrow> search_url s)"

text \<open>
  \<open>re.search\<close> with the second pattern: \<open>^\<close> holds at position 0 only, and \<open>$\<close>
  (no MULTILINE flag) holds at the end of the string and just before a newline that
  ends the string.
\<close>

definition search_bare :: "pystr \<Rightarrow> pystr option" where
  "search_bare s =
     (case match_id11 s of
        None \<Rightarrow> None
      | Some t \<Rightarrow> if drop 11 s = [] \<or> drop 11 s = [10] then Some t else None)"

definition INVALID_URL_MSG :: pystr where
  "INVALID_URL_MSG =
     [50976, 54952, 54620, 32, 89, 111, 117, 84, 117, 98, 101, 32, 85, 82, 76, 51060, 32,
      50500, 45785, 45768, 45796, 58, 32]"

definition extract_video_id :: "pystr \<Rightarrow> exn + pystr" where
  "extract_video_id url =
     (case search_url url of
        Some t \<Rightarrow> Inr t
      | None \<Rightarrow>
          (case search_bare url of
             Some t \<Rightarrow> Inr t
           | None \<Rightarrow> Inl (Exn ValueError (INVALID_URL_MSG @ url))))"

text \<open>
  Vocabulary of the statements about extraction: a token is eleven characters of the
  class; \<open>token_at s i t\<close> says that at position \<open>i\<close> of \<open>s\<close> one of the three prefixes
  stands, followed by the token \<open>t\<close>.
\<close>

definition is_token :: "pystr \<Rightarrow> bool" where
  "is_token t = (length t = 11 \<and> list_all is_id_char t)"

definition token_at :: "pystr \<Rightarrow> nat \<Rightarrow> pystr \<Rightarrow> bool" where
  "token_at s i t =
     (is_token t \<and> list_ex (\<lambda>p. starts_with (p @ t) (drop i s)) URL_PREFIXES)"

section \<open>JSON values, external services, the world\<close>

text \<open>
  The values \<open>json.loads\<close> returns: \<open>None\<close>, \<open>bool\<close>, \<open>int\<close>, \<open>float\<close>, \<open>str\<close>,
  \<open>list\<close> and \<open>dict\<close> (keys in insertion order, each key once).  No function of the
  program computes with a \<open>float\<close>; it is kept as its literal.
\<close>

datatype json =
    JNull | JBool bool | JInt int | JFloat pystr | JStr pystr
  | JArr "json list" | JObj "(pystr \<times> json) list"

text \<open>One fragment of a fetched transcript; only its \<open>text\<close> attribute is read.\<close>

datatype fragment = Fragment (frag_text: pystr)

text \<open>
  The two fixed system prompts are long constant texts that only the model service
  reads; they are named, not spelled out.
\<close>

datatype prompt = TranslatePrompt | SummarizePrompt

record request =
  req_model :: pystr
  max_tokens :: nat
  system_prompt :: prompt
  user_content :: pystr

text \<open>
  An element of \<open>response.content\<close>.  Reading \<open>.text\<close> of a block that is not a text
  block raises \<open>AttributeError\<close>; \<open>OtherBlock\<close> carries the text of that error.
\<close>

datatype content_block = TextBlock pystr | OtherBlock pystr

datatype status = Pending | Processing | Completed | Failed

text \<open>
  A value of the \<open>jobs\<close> dictionary.  \<open>None\<close> in a field is Python's \<open>None\<close> (for
  \<open>html_path\<close>: the key is not there yet).
\<close>

record job =
  status :: status
  video_id :: "pystr option"
  step :: pystr
  error :: "pystr option"
  result :: "json option"
  html_path :: "pystr option"

datatype job_field =
    SetStatus status | SetVideoId pystr | SetStep pystr | SetError pystr
  | SetResult json | SetHtmlPath pystr

text \<open>
  The effects of the program, in the order they happen: a new entry of \<open>jobs\<close>, an
  assignment to a field of an entry (with the entry as it is afterwards), a call of the
  transcript service, a call of the model service, a file of \<open>OUTPUT_DIR\<close> opened for
  writing (with the text it holds when it is closed).
\<close>

datatype event =
    JobNew pystr job
  | JobWrite pystr job_field job
  | FetchCall pystr "pystr list option"
  | ModelCall request
  | FileWrite pystr pystr

text \<open>
  What the program takes from outside itself: the environment variable, the transcript
  service (\<open>YouTubeTranscriptApi().fetch\<close>), the model service
  (\<open>client.messages.create\<close>), the \<open>json\<close> module (\<open>json.loads\<close> and
  \<open>json.load\<close> of a text, and the pieces of text that
  \<open>json.dump(obj, f, ensure_ascii=False, indent=2)\<close> hands to \<open>f.write\<close> one after the
  other), the clock
  (\<open>datetime.now().isoformat()\<close>), the text of the report that the template of
  \<open>generate_html\<close> produces once its lookups have succeeded, the path of
  \<open>OUTPUT_DIR\<close>, and Python's \<open><\<close> on pairs of values that are not both \<open>str\<close>.
  In one run of the pipeline no two calls of a service have the same arguments, so a
  function of the arguments describes any behaviour of the service in that run.
\<close>

record services =
  getenv_api_key :: "pystr option"
  api_fetch :: "pystr \<Rightarrow> pystr list option \<Rightarrow> exn + fragment list"
  messages_create :: "request \<Rightarrow> exn + content_block list"
  json_loads :: "pystr \<Rightarrow> exn + json"
  json_chunks :: "json \<Rightarrow> pystr list"
  now_isoformat :: pystr
  render_html :: "pystr \<Rightarrow> pystr \<Rightarrow> json \<Rightarrow> pystr"
  output_dir :: pystr
  lt_other :: "json \<Rightarrow> json \<Rightarrow> exn + bool"

text \<open>
  The mutable state: the global \<open>jobs\<close> dictionary, the files of \<open>OUTPUT_DIR\<close> by
  name (each a text), and the effects so far.
\<close>

record world =
  jobs :: "pystr \<Rightarrow> job option"
  files :: "pystr \<Rightarrow> pystr option"
  trace :: "event list"

type_synonym 'a io = "world \<Rightarrow> (exn + 'a) \<times> world"

definition bind_io :: "'a io \<Rightarrow> ('a \<Rightarrow> 'b io) \<Rightarrow> 'b io" where
  "bind_io m f = (\<lambda>w. case m w of (Inl e, w') \<Rightarrow> (Inl e, w') | (Inr x, w') \<Rightarrow> f x w')"

definition bind_sum :: "exn + 'a \<Rightarrow> ('a \<Rightarrow> exn + 'b) \<Rightarrow> exn + 'b" where
  "bind_sum m f = (case m of Inl e \<Rightarrow> Inl e | Inr x \<Rightarrow> f x)"

text \<open>A step that computes a result and performs the listed service calls.\<close>

definition call :: "(exn + 'a) \<times> event list \<Rightarrow> 'a io" where
  "call m = (\<lambda>w. (fst m, w\<lparr>trace := trace w @ snd m\<rparr>))"

section \<open>Transcript source adapter\<close>

text \<open>
  \<^verbatim>\<open>
  def extract_transcript(video_id: str) -> str:
      api = YouTubeTranscriptApi()
      try:
          transcript = api.fetch(video_id, languages=['en', 'en-US', 'ko'])
      except Exception:
          transcript = api.fetch(video_id)
      return " ".join([item.text for item in transcript])
  \<close>
  The result comes with the calls made.
\<close>

definition LANGUAGES :: "pystr list" where
  "LANGUAGES = [lit ''en'', lit ''en-US'', lit ''ko'']"

definition join_fragments :: "fragment list \<Rightarrow> pystr" where
  "join_fragments transcript = py_join (lit '' '') (map frag_text transcript)"

definition extract_transcript :: "services \<Rightarrow> pystr \<Rightarrow> (exn + pystr) \<times> event list" where
  "extract_transcript sv vid =
     (case api_fetch sv vid (Some LANGUAGES) of
        Inr transcript \<Rightarrow> (Inr (join_fragments transcript), [FetchCall vid (Some LANGUAGES)])
      | Inl _ \<Rightarrow>
          (case api_fetch sv vid None of
             Inr transcript \<Rightarrow>
               (Inr (join_fragments transcript),
                [FetchCall vid (Some LANGUAGES), FetchCall vid None])
           | Inl e \<Rightarrow> (Inl e, [FetchCall vid (Some LANGUAGES), FetchCall vid None])))"

section \<open>Language transformation client\<close>

definition CLAUDE_MODEL :: pystr where
  "CLAUDE_MODEL = lit ''claude-sonnet-4-20250514''"

definition TRANSLATE_USER :: pystr where
  "TRANSLATE_USER =
     [45796, 51020, 32, 50689, 50612, 32, 49828, 53356, 47549, 53944, 47484, 32, 54620,
      44544, 47196, 32, 48264, 50669, 54644, 51452, 49464, 50836, 58, 10, 10]"

definition SUMMARIZE_USER :: pystr where
  "SUMMARIZE_USER =
     [45796, 51020, 32, 53080, 53584, 52768, 47484, 32, 48516, 49437, 54616, 44256, 32, 74,
      83, 79, 78, 51004, 47196, 32, 44396, 51312, 54868, 54644, 51452, 49464, 50836, 58,
      10, 10]"

definition translate_request :: "pystr \<Rightarrow> request" where
  "translate_request txt =
     \<lparr>req_model = CLAUDE_MODEL, max_tokens = 8192, system_prompt = TranslatePrompt,
      user_content = TRANSLATE_USER @ txt\<rparr>"

definition summarize_request :: "pystr \<Rightarrow> request" where
  "summarize_request korean_text =
     \<lparr>req_model = CLAUDE_MODEL, max_tokens = 4096, system_prompt = SummarizePrompt,
      user_content = SUMMARIZE_USER @ korean_text\<rparr>"

text \<open>\<open>response.content[0].text\<close>\<close>

fun content0_text :: "content_block list \<Rightarrow> exn + pystr" where
  "content0_text [] = Inl (Exn IndexError (lit ''list index out of range''))"
| "content0_text (TextBlock t # bs) = Inr t"
| "content0_text (OtherBlock m # bs) = Inl (Exn AttributeError m)"

definition translate :: "services \<Rightarrow> pystr \<Rightarrow> (exn + pystr) \<times> event list" where
  "translate sv txt =
     (case messages_create sv (translate_request txt) of
        Inl e \<Rightarrow> (Inl e, [ModelCall (translate_request txt)])
      | Inr content \<Rightarrow> (content0_text content, [ModelCall (translate_request txt)]))"

text \<open>
  \<open>re.sub(r'^```json\s*|\s*```$', '', s)\<close>.  The first alternative can match at
  position 0 only.  The second matches at a position when, after the longest run of
  whitespace there, the three backquotes stand at the end of the string (\<open>$\<close> also holds
  before a newline that ends the string).  Neither matches the empty string, and the
  scan goes on after a match.
\<close>

definition FENCE :: pystr where
  "FENCE = lit ''```''"

definition FENCE_JSON :: pystr where
  "FENCE_JSON = lit ''```json''"

definition closing_here :: "pystr \<Rightarrow> bool" where
  "closing_here s = (dropWhile is_space s = FENCE \<or> dropWhile is_space s = FENCE @ [10])"

fun sub_closing :: "pystr \<Rightarrow> pystr" where
  "sub_closing [] = []"
| "sub_closing (c # s) =
     (if closing_here (c # s) then drop 3 (dropWhile is_space (c # s))
      else c # sub_closing s)"

definition strip_fences :: "pystr \<Rightarrow> pystr" where
  "strip_fences s =
     (if starts_with FENCE_JSON s
      then sub_closing (dropWhile is_space (drop (length FENCE_JSON) s))
      else sub_closing s)"

text \<open>
  \<^verbatim>\<open>
      result_text = response.content[0].text
      json_text = re.sub(r'^```json\s*|\s*```$', '', result_text.strip())
      return json.loads(json_text)
  \<close>
\<close>

definition parse_summary :: "services \<Rightarrow> pystr \<Rightarrow> exn + json" where
  "parse_summary sv result_text = json_loads sv (strip_fences (py_strip result_text))"

definition summarize :: "services \<Rightarrow> pystr \<Rightarrow> (exn + json) \<times> event list" where
  "summarize sv korean_text =
     (case messages_create sv (summarize_request korean_text) of
        Inl e \<Rightarrow> (Inl e, [ModelCall (summarize_request korean_text)])
      | Inr content \<Rightarrow>
          (bind_sum (content0_text content) (parse_summary sv),
           [ModelCall (summarize_request korean_text)]))"

section \<open>Report generation\<close>

definition py_type_name :: "json \<Rightarrow> pystr" where
  "py_type_name v =
     (case v of JNull \<Rightarrow> lit ''NoneType'' | JBool _ \<Rightarrow> lit ''bool'' | JInt _ \<Rightarrow> lit ''int''
      | JFloat _ \<Rightarrow> lit ''float'' | JStr _ \<Rightarrow> lit ''str'' | JArr _ \<Rightarrow> lit ''list''
      | JObj _ \<Rightarrow> lit ''dict'')"

definition no_attribute :: "json \<Rightarrow> pystr \<Rightarrow> exn" where
  "no_attribute v name =
     Exn AttributeError
       ([39] @ py_type_name v @ [39] @ lit '' object has no attribute '' @ [39] @ name @ [39])"

definition not_iterable :: "json \<Rightarrow> exn" where
  "not_iterable v = Exn TypeError ([39] @ py_type_name v @ [39] @ lit '' object is not iterable'')"

text \<open>\<open>v.get(key, default)\<close>: only a \<open>dict\<close> has the method.\<close>

definition py_get :: "json \<Rightarrow> pystr \<Rightarrow> json \<Rightarrow> exn + json" where
  "py_get v k d =
     (case v of
        JObj kvs \<Rightarrow> Inr (case map_of kvs k of Some x \<Rightarrow> x | None \<Rightarrow> d)
      | _ \<Rightarrow> Inl (no_attribute v (lit ''get'')))"

text \<open>The elements a \<open>for\<close> loop over the value visits.\<close>

definition py_iter :: "json \<Rightarrow> exn + json list" where
  "py_iter v =
     (case v of
        JArr xs \<Rightarrow> Inr xs
      | JStr s \<Rightarrow> Inr (map (\<lambda>c. JStr [c]) s)
      | JObj kvs \<Rightarrow> Inr (map (\<lambda>kv. JStr (fst kv)) kvs)
      | _ \<Rightarrow> Inl (not_iterable v))"

text \<open>A loop whose body starts by calling \<open>.get\<close> on the element.\<close>

fun each_get :: "json list \<Rightarrow> exn + unit" where
  "each_get [] = Inr ()"
| "each_get (x # xs) =
     (case x of JObj _ \<Rightarrow> each_get xs | _ \<Rightarrow> Inl (no_attribute x (lit ''get'')))"

text \<open>
  \<open>generate_html\<close>: the lookups and loops in the order of the source (tags, key points,
  quotes, action items, related topics), then the template.
\<close>

definition generate_html :: "services \<Rightarrow> pystr \<Rightarrow> pystr \<Rightarrow> json \<Rightarrow> exn + pystr" where
  "generate_html sv vid korean summary =
     bind_sum (py_get summary (lit ''tags'') (JArr [])) (\<lambda>tags.
     bind_sum (py_iter tags) (\<lambda>_.
     bind_sum (py_get summary (lit ''key_points'') (JArr [])) (\<lambda>key_points.
     bind_sum (py_iter key_points) (\<lambda>points.
     bind_sum (each_get points) (\<lambda>_.
     bind_sum (py_get summary (lit ''quotes'') (JArr [])) (\<lambda>quotes.
     bind_sum (py_iter quotes) (\<lambda>qs.
     bind_sum (each_get qs) (\<lambda>_.
     bind_sum (py_get summary (lit ''action_items'') (JArr [])) (\<lambda>action_items.
     bind_sum (py_iter action_items) (\<lambda>_.
     bind_sum (py_get summary (lit ''related_topics'') (JArr [])) (\<lambda>related_topics.
     bind_sum (py_iter related_topics) (\<lambda>_.
     Inr (render_html sv vid korean summary)))))))))))))"

section \<open>Job registry and the background task\<close>

definition STEP_WAIT :: pystr where
  "STEP_WAIT = [45824, 44592, 32, 51473, 46, 46, 46]"

definition STEP_FETCH :: pystr where
  "STEP_FETCH = [51088, 47561, 32, 52628, 52636, 32, 51473, 46, 46, 46]"

definition STEP_TRANSLATE :: pystr where
  "STEP_TRANSLATE = [48264, 50669, 32, 51473, 46, 46, 46]"

definition STEP_SUMMARIZE :: pystr where
  "STEP_SUMMARIZE = [50836, 50557, 32, 51473, 46, 46, 46]"

definition STEP_SAVE :: pystr where
  "STEP_SAVE = [51200, 51109, 32, 51473, 46, 46, 46]"

definition NO_KEY_MSG :: pystr where
  "NO_KEY_MSG =
     [65, 78, 84, 72, 82, 79, 80, 73, 67, 95, 65, 80, 73, 95, 75, 69, 89, 32, 54872, 44221,
      48320, 49688, 44032, 32, 49444, 51221, 46104, 51648, 32, 50506, 50520, 49845, 45768,
      45796, 46]"

definition JOB_404 :: pystr where
  "JOB_404 = [51089, 50629, 51012, 32, 52286, 51012, 32, 49688, 32, 50630, 49845, 45768, 45796, 46]"


fun apply_field :: "job_field \<Rightarrow> job \<Rightarrow> job" where
  "apply_field (SetStatus s) j = j\<lparr>status := s\<rparr>"
| "apply_field (SetVideoId v) j = j\<lparr>video_id := Some v\<rparr>"
| "apply_field (SetStep s) j = j\<lparr>step := s\<rparr>"
| "apply_field (SetError m) j = j\<lparr>error := Some m\<rparr>"
| "apply_field (SetResult r) j = j\<lparr>result := Some r\<rparr>"
| "apply_field (SetHtmlPath p) j = j\<lparr>html_path := Some p\<rparr>"

text \<open>
  \<open>jobs[job_id][key] = value\<close>: \<open>KeyError\<close> when the job is not there, whose text is
  the \<open>repr\<close> of the key (the key between quotes, for the hexadecimal keys the program
  makes).
\<close>

definition set_job :: "pystr \<Rightarrow> job_field \<Rightarrow> unit io" where
  "set_job job_id f =
     (\<lambda>w. case jobs w job_id of
        None \<Rightarrow> (Inl (Exn KeyError ([39] @ job_id @ [39])), w)
      | Some j \<Rightarrow>
          (Inr (),
           w\<lparr>jobs := (jobs w)(job_id \<mapsto> apply_field f j),
             trace := trace w @ [JobWrite job_id f (apply_field f j)]\<rparr>))"

text \<open>Decimal digits of a number, as \<open>str\<close> of an \<open>int\<close> gives them.\<close>

fun digits :: "nat \<Rightarrow> pystr" where
  "digits n = (if n < 10 then [48 + n] else digits (n div 10) @ [48 + n mod 10])"

text \<open>
  Text written to a file opened with \<open>encoding='utf-8'\<close>.  A surrogate code point
  (U+D800 to U+DFFF) has no UTF-8 encoding: \<open>f.write(s)\<close> of a text that holds one raises
  \<open>UnicodeEncodeError\<close> and writes nothing of \<open>s\<close>.  The error names the first run of
  surrogates of the text: the character, when the run is one character long, and the
  positions of the run otherwise.
\<close>

definition is_surrogate :: "nat \<Rightarrow> bool" where
  "is_surrogate c = (55296 \<le> c \<and> c \<le> 57343)"

definition hex_digit :: "nat \<Rightarrow> nat" where
  "hex_digit d = (if d < 10 then 48 + d else 87 + d)"

text \<open>The escape \<open>\u....\<close> with four hexadecimal digits.\<close>

definition escape_u :: "nat \<Rightarrow> pystr" where
  "escape_u c =
     [92, 117] @ map hex_digit [c div 4096 mod 16, c div 256 mod 16, c div 16 mod 16, c mod 16]"

definition utf8_error :: "pystr \<Rightarrow> exn" where
  "utf8_error s =
     (let start = length (takeWhile (\<lambda>c. \<not> is_surrogate c) s);
          run = length (takeWhile is_surrogate (drop start s))
      in Exn UnicodeEncodeError
           ([39] @ lit ''utf-8'' @ [39] @ lit '' codec can'' @ [39] @
            (if run = 1
             then lit ''t encode character '' @ [39] @ escape_u (s ! start) @ [39] @
                  lit '' in position '' @ digits start
             else lit ''t encode characters in position '' @ digits start @ lit ''-'' @
                  digits (start + run - 1)) @
            lit '': surrogates not allowed''))"

text \<open>
  The pieces written one after the other to an open file: the first piece that cannot
  be encoded raises, and the file keeps the pieces written before it.  The result is the
  exception, if any, and the text the file holds when it is closed.
\<close>

fun write_chunks :: "pystr \<Rightarrow> pystr list \<Rightarrow> exn option \<times> pystr" where
  "write_chunks written [] = (None, written)"
| "write_chunks written (c # cs) =
     (if list_ex is_surrogate c then (Some (utf8_error c), written)
      else write_chunks (written @ c) cs)"

text \<open>
  \<open>with open(path, 'w', encoding='utf-8') as f:\<close> and the writes of its body, for a
  file of \<open>OUTPUT_DIR\<close>: opening empties the file, and leaving the block closes it, also
  when a write has raised.  The operating system is taken to accept the file (no
  \<open>OSError\<close>).
\<close>

definition write_file :: "pystr \<Rightarrow> pystr list \<Rightarrow> unit io" where
  "write_file name chunks =
     (\<lambda>w. case write_chunks [] chunks of
        (r, content) \<Rightarrow>
          ((case r of None \<Rightarrow> Inr () | Some e \<Rightarrow> Inl e),
           w\<lparr>files := (files w)(name \<mapsto> content),
             trace := trace w @ [FileWrite name content]\<rparr>))"

definition require_api_key :: "services \<Rightarrow> exn + pystr" where
  "require_api_key sv =
     (case getenv_api_key sv of
        None \<Rightarrow> Inl (Exn ValueError NO_KEY_MSG)
      | Some k \<Rightarrow> if k = [] then Inl (Exn ValueError NO_KEY_MSG) else Inr k)"

text \<open>The \<open>result\<close> dictionary of \<open>process_video\<close> and of \<open>save_result\<close>.\<close>


definition make_result :: "services \<Rightarrow> pystr \<Rightarrow> pystr \<Rightarrow> pystr \<Rightarrow> json \<Rightarrow> json" where
  "make_result sv vid original korean summary =
     JObj [(lit ''video_id'', JStr vid),
           (lit ''video_url'', JStr (lit ''https://www.youtube.com/watch?v='' @ vid)),
           (lit ''original_transcript'', JStr original),
           (lit ''korean_transcript'', JStr korean),
           (lit ''summary'', summary),
           (lit ''processed_at'', JStr (now_isoformat sv))]"

definition json_name :: "pystr \<Rightarrow> pystr" where
  "json_name vid = vid @ lit ''.json''"

definition html_name :: "pystr \<Rightarrow> pystr" where
  "html_name vid = vid @ lit ''.html''"

text \<open>
  Step 5 of \<open>process_video\<close> (\<open>server.py\<close>, from \<open>OUTPUT_DIR.mkdir\<close> to the write of the
  report): the result is assembled, the JSON document is written, then the report is
  generated and written.  It returns the result and the path of the report.
\<close>

definition save_artifacts ::
    "services \<Rightarrow> pystr \<Rightarrow> pystr \<Rightarrow> pystr \<Rightarrow> json \<Rightarrow> (json \<times> pystr) io" where
  "save_artifacts sv vid original korean summary =
     bind_io (write_file (json_name vid)
                (json_chunks sv (make_result sv vid original korean summary))) (\<lambda>_.
     bind_io (\<lambda>w. (generate_html sv vid korean summary, w)) (\<lambda>html_content.
     bind_io (write_file (html_name vid) [html_content]) (\<lambda>_.
     (\<lambda>w. (Inr (make_result sv vid original korean summary,
                 output_dir sv @ lit ''/'' @ html_name vid), w)))))"

text \<open>The body of the \<open>try\<close> of \<open>process_video\<close>.\<close>

definition try_block :: "services \<Rightarrow> pystr \<Rightarrow> pystr \<Rightarrow> unit io" where
  "try_block sv job_id url =
     bind_io (set_job job_id (SetStatus Processing)) (\<lambda>_.
     bind_io (\<lambda>w. (require_api_key sv, w)) (\<lambda>api_key.
     bind_io (\<lambda>w. (extract_video_id url, w)) (\<lambda>vid.
     bind_io (set_job job_id (SetVideoId vid)) (\<lambda>_.
     bind_io (set_job job_id (SetStep STEP_FETCH)) (\<lambda>_.
     bind_io (call (extract_transcript sv vid)) (\<lambda>original.
     bind_io (set_job job_id (SetStep STEP_TRANSLATE)) (\<lambda>_.
     bind_io (call (translate sv original)) (\<lambda>korean.
     bind_io (set_job job_id (SetStep STEP_SUMMARIZE)) (\<lambda>_.
     bind_io (call (summarize sv korean)) (\<lambda>summary.
     bind_io (set_job job_id (SetStep STEP_SAVE)) (\<lambda>_.
     bind_io (save_artifacts sv vid original korean summary) (\<lambda>saved.
     bind_io (set_job job_id (SetStatus Completed)) (\<lambda>_.
     bind_io (set_job job_id (SetResult (fst saved))) (\<lambda>_.
     set_job job_id (SetHtmlPath (snd saved))))))))))))))))"

text \<open>The \<open>except Exception as e\<close> of \<open>process_video\<close>.\<close>

definition except_block :: "pystr \<Rightarrow> exn \<Rightarrow> unit io" where
  "except_block job_id e =
     bind_io (set_job job_id (SetStatus Failed)) (\<lambda>_.
     set_job job_id (SetError (exn_str e)))"

text \<open>
  \<open>process_video\<close>: the exception that leaves the function, if one does, and the world
  afterwards.
\<close>

definition process_video :: "services \<Rightarrow> pystr \<Rightarrow> pystr \<Rightarrow> world \<Rightarrow> exn option \<times> world" where
  "process_video sv job_id url w =
     (case try_block sv job_id url w of
        (Inr _, w1) \<Rightarrow> (None, w1)
      | (Inl e, w1) \<Rightarrow>
          (case except_block job_id e w1 of
             (Inr _, w2) \<Rightarrow> (None, w2)
           | (Inl e2, w2) \<Rightarrow> (Some e2, w2)))"

text \<open>
  \<^verbatim>\<open>
  job_id = str(uuid.uuid4())[:8]
  jobs[job_id] = {"status": "pending", "video_id": None, "step": "...",
                  "error": None, "result": None}
  background_tasks.add_task(process_video, job_id, request.url)
  return {"job_id": job_id}
  \<close>
  \<open>uuid\<close> is \<open>str(uuid.uuid4())\<close>.  The task added runs after the response.
\<close>

definition new_job :: job where
  "new_job =
     \<lparr>status = Pending, video_id = None, step = STEP_WAIT, error = None, result = None,
      html_path = None\<rparr>"

definition start_translation :: "pystr \<Rightarrow> world \<Rightarrow> pystr \<times> world" where
  "start_translation uuid w =
     (take 8 uuid,
      w\<lparr>jobs := (jobs w)(take 8 uuid \<mapsto> new_job),
        trace := trace w @ [JobNew (take 8 uuid) new_job]\<rparr>)"

text \<open>A submission and then its background task, with no other request in between.\<close>

definition submit_and_run :: "services \<Rightarrow> pystr \<Rightarrow> pystr \<Rightarrow> world \<Rightarrow> exn option \<times> world" where
  "submit_and_run sv uuid url w =
     process_video sv (fst (start_translation uuid w)) url (snd (start_translation uuid w))"

definition http_404 :: "pystr \<Rightarrow> exn" where
  "http_404 detail = Exn (HTTPException 404) (lit ''404: '' @ detail)"

definition get_status :: "pystr \<Rightarrow> world \<Rightarrow> exn + job" where
  "get_status job_id w =
     (case jobs w job_id of None \<Rightarrow> Inl (http_404 JOB_404) | Some j \<Rightarrow> Inr j)"

section \<open>Artifact store\<close>


text \<open>\<open>save_result\<close> of \<open>agent.py\<close>: the JSON document only.\<close>

definition save_result :: "services \<Rightarrow> pystr \<Rightarrow> pystr \<Rightarrow> pystr \<Rightarrow> json \<Rightarrow> pystr io" where
  "save_result sv vid original korean summary =
     bind_io (write_file (json_name vid)
                (json_chunks sv (make_result sv vid original korean summary))) (\<lambda>_.
     (\<lambda>w. (Inr (output_dir sv @ lit ''/'' @ json_name vid), w)))"

text \<open>Python's \<open><\<close> on two \<open>str\<close>: by code points, a proper prefix is smaller.\<close>

fun str_lt :: "pystr \<Rightarrow> pystr \<Rightarrow> bool" where
  "str_lt [] [] = False"
| "str_lt [] (y # ys) = True"
| "str_lt (x # xs) [] = False"
| "str_lt (x # xs) (y # ys) = (x < y \<or> (x = y \<and> str_lt xs ys))"

definition py_lt :: "services \<Rightarrow> json \<Rightarrow> json \<Rightarrow> exn + bool" where
  "py_lt sv a b =
     (case (a, b) of (JStr x, JStr y) \<Rightarrow> Inr (str_lt x y) | _ \<Rightarrow> lt_other sv a b)"

text \<open>
  \<open>sorted(results, key=lambda x: x.get("processed_at", ""), reverse=True)\<close>.  Python's
  sort is stable, also with \<open>reverse=True\<close>, and uses \<open><\<close> on the keys only; an exception
  of a comparison leaves the sort.  Where \<open><\<close> is a total order on the keys a stable
  sort has one possible result, the one this insertion sort returns.  The elements are
  pairs of key and item.
\<close>

fun insert_desc :: "services \<Rightarrow> json \<times> json \<Rightarrow> (json \<times> json) list \<Rightarrow> exn + (json \<times> json) list" where
  "insert_desc sv x [] = Inr [x]"
| "insert_desc sv x (y # ys) =
     (case py_lt sv (fst x) (fst y) of
        Inl e \<Rightarrow> Inl e
      | Inr True \<Rightarrow> bind_sum (insert_desc sv x ys) (\<lambda>r. Inr (y # r))
      | Inr False \<Rightarrow> Inr (x # y # ys))"

fun sort_desc :: "services \<Rightarrow> (json \<times> json) list \<Rightarrow> exn + (json \<times> json) list" where
  "sort_desc sv [] = Inr []"
| "sort_desc sv (x # xs) = bind_sum (sort_desc sv xs) (insert_desc sv x)"

text \<open>The dictionary \<open>list_results\<close> appends for one document.\<close>

definition projection :: "json \<Rightarrow> exn + json" where
  "projection data =
     bind_sum (py_get data (lit ''video_id'') JNull) (\<lambda>vid.
     bind_sum (py_get data (lit ''summary'') (JObj [])) (\<lambda>summary1.
     bind_sum (py_get summary1 (lit ''one_liner'') (JStr [])) (\<lambda>one_liner.
     bind_sum (py_get data (lit ''summary'') (JObj [])) (\<lambda>summary2.
     bind_sum (py_get summary2 (lit ''tags'') (JArr [])) (\<lambda>tags.
     bind_sum (py_get data (lit ''processed_at'') JNull) (\<lambda>processed_at.
     Inr (JObj [(lit ''video_id'', vid), (lit ''one_liner'', one_liner),
                (lit ''tags'', tags), (lit ''processed_at'', processed_at)])))))))"

definition file_not_found :: "services \<Rightarrow> pystr \<Rightarrow> exn" where
  "file_not_found sv name =
     Exn FileNotFoundError
       (lit ''[Errno 2] No such file or directory: '' @ [39] @ output_dir sv @ lit ''/'' @ name @ [39])"

text \<open>The loop of \<open>list_results\<close> over the files that \<open>glob\<close> yields.\<close>

fun load_projections :: "services \<Rightarrow> world \<Rightarrow> pystr list \<Rightarrow> exn + json list" where
  "load_projections sv w [] = Inr []"
| "load_projections sv w (name # names) =
     (case files w name of
        None \<Rightarrow> Inl (file_not_found sv name)
      | Some doc \<Rightarrow>
          bind_sum (json_loads sv doc) (\<lambda>data.
          bind_sum (projection data) (\<lambda>p.
          bind_sum (load_projections sv w names) (\<lambda>ps. Inr (p # ps)))))"

text \<open>
  \<open>list_results\<close>.  \<open>listing\<close> is the content of \<open>OUTPUT_DIR\<close> in the order the operating
  system enumerates it; \<open>glob("*.json")\<close> keeps the names that end in \<open>.json\<close>.
\<close>

definition glob_json :: "pystr list \<Rightarrow> pystr list" where
  "glob_json listing = filter (ends_with (lit ''.json'')) listing"

definition sort_key :: "json \<Rightarrow> exn + json" where
  "sort_key x = py_get x (lit ''processed_at'') (JStr [])"

fun with_keys :: "json list \<Rightarrow> exn + (json \<times> json) list" where
  "with_keys [] = Inr []"
| "with_keys (x # xs) =
     bind_sum (sort_key x) (\<lambda>k. bind_sum (with_keys xs) (\<lambda>r. Inr ((k, x) # r)))"

definition list_results :: "services \<Rightarrow> pystr list \<Rightarrow> world \<Rightarrow> exn + json list" where
  "list_results sv listing w =
     bind_sum (load_projections sv w (glob_json listing)) (\<lambda>results.
     bind_sum (with_keys results) (\<lambda>keyed.
     bind_sum (sort_desc sv keyed) (\<lambda>sorted_results. Inr (map snd sorted_results))))"

section \<open>The one-shot command\<close>

text \<open>
  \<open>', '.join(v)\<close>: the argument must be iterable and each of its elements a \<open>str\<close>.
  The function returns the error of the first element that is not one.
\<close>

fun join_items :: "nat \<Rightarrow> json list \<Rightarrow> exn + unit" where
  "join_items i [] = Inr ()"
| "join_items i (x # xs) =
     (case x of
        JStr _ \<Rightarrow> join_items (Suc i) xs
      | _ \<Rightarrow> Inl (Exn TypeError
                 (lit ''sequence item '' @ digits i @ lit '': expected str instance, '' @
                  py_type_name x @ lit '' found'')))"

definition join_check :: "json \<Rightarrow> exn + unit" where
  "join_check v =
     (case py_iter v of
        Inl _ \<Rightarrow> Inl (Exn TypeError (lit ''can only join an iterable''))
      | Inr xs \<Rightarrow> join_items 0 xs)"

text \<open>
  The two lines of \<open>main\<close> that print \<open>summary.get('one_liner', 'N/A')\<close> and
  \<open>', '.join(summary.get('tags', []))\<close>; what is printed is not modelled.
\<close>

definition print_summary :: "json \<Rightarrow> exn + unit" where
  "print_summary summary =
     bind_sum (py_get summary (lit ''one_liner'') (JStr (lit ''N/A''))) (\<lambda>_.
     bind_sum (py_get summary (lit ''tags'') (JArr [])) join_check)"

text \<open>The body of the \<open>try\<close> of \<open>main\<close> (\<open>agent.py\<close>).\<close>

definition main_try :: "services \<Rightarrow> pystr \<Rightarrow> unit io" where
  "main_try sv url =
     bind_io (\<lambda>w. (extract_video_id url, w)) (\<lambda>vid.
     bind_io (call (extract_transcript sv vid)) (\<lambda>original.
     bind_io (call (translate sv original)) (\<lambda>korean.
     bind_io (call (summarize sv korean)) (\<lambda>summary.
     bind_io (save_result sv vid original korean summary) (\<lambda>output_path.
     (\<lambda>w. (print_summary summary, w)))))))"

text \<open>\<open>main\<close>: the exit status of the process and the world afterwards.\<close>

definition main :: "services \<Rightarrow> pystr \<Rightarrow> world \<Rightarrow> nat \<times> world" where
  "main sv url w =
     (case require_api_key sv of
        Inl _ \<Rightarrow> (1, w)
      | Inr _ \<Rightarrow>
          (case main_try sv url w of
             (Inl e, w1) \<Rightarrow> (1, w1)
           | (Inr _, w1) \<Rightarrow> (0, w1)))"

section \<open>Vocabulary of the statements\<close>

text \<open>The effects that a step appended to the trace.\<close>

definition new_events :: "world \<Rightarrow> world \<Rightarrow> event list" where
  "new_events w w' = drop (length (trace w)) (trace w')"

text \<open>
  The successive values of one entry of \<open>jobs\<close>, one per write to it: what a poll can
  see at some moment is the last value so far.
\<close>

fun job_history :: "pystr \<Rightarrow> event list \<Rightarrow> job list" where
  "job_history jid [] = []"
| "job_history jid (JobNew i j # es) = (if i = jid then j # job_history jid es else job_history jid es)"
| "job_history jid (JobWrite i f j # es) =
     (if i = jid then j # job_history jid es else job_history jid es)"
| "job_history jid (FetchCall v l # es) = job_history jid es"
| "job_history jid (ModelCall r # es) = job_history jid es"
| "job_history jid (FileWrite n c # es) = job_history jid es"

definition terminal :: "status \<Rightarrow> bool" where
  "terminal s = (s = Completed \<or> s = Failed)"

text \<open>The assignments of a terminal status to the \<open>status\<close> field of one entry.\<close>

fun is_terminal_write :: "pystr \<Rightarrow> event \<Rightarrow> bool" where
  "is_terminal_write jid (JobWrite i (SetStatus s) j) = (i = jid \<and> terminal s)"
| "is_terminal_write jid e = False"

definition terminal_writes :: "pystr \<Rightarrow> event list \<Rightarrow> event list" where
  "terminal_writes jid es = filter (is_terminal_write jid) es"

text \<open>The effects that come before the first such assignment.\<close>

definition before_terminal :: "pystr \<Rightarrow> event list \<Rightarrow> event list" where
  "before_terminal jid es = takeWhile (\<lambda>e. \<not> is_terminal_write jid e) es"

definition unfinished :: "status \<Rightarrow> bool" where
  "unfinished s = (s = Pending \<or> s = Processing)"

text \<open>
  A sequence of statuses of the form pending, processing (once or more), then one
  terminal status (once or more).
\<close>

fun stays :: "status \<Rightarrow> status list \<Rightarrow> bool" where
  "stays t [] = True"
| "stays t (s # ss) = (s = t \<and> stays t ss)"

fun from_processing :: "status list \<Rightarrow> bool" where
  "from_processing [] = False"
| "from_processing (s # ss) =
     (if s = Processing then from_processing ss else terminal s \<and> stays s ss)"

fun lifecycle :: "status list \<Rightarrow> bool" where
  "lifecycle (Pending # Processing # ss) = from_processing ss"
| "lifecycle ss = False"

text \<open>The calls of the external services and the files written, without the job writes.\<close>

fun outside_effects :: "event list \<Rightarrow> event list" where
  "outside_effects [] = []"
| "outside_effects (JobNew i j # es) = outside_effects es"
| "outside_effects (JobWrite i f j # es) = outside_effects es"
| "outside_effects (e # es) = e # outside_effects es"


section \<open>Test doubles for the external services\<close>

text \<open>
  Stand-ins for the services, in the manner of the concrete scenario of the
  specification: the transcript source fails when asked for the preferred languages and
  returns the fragments \<open>Hello\<close>, \<open>world\<close> otherwise; the model returns a fixed translation
  and a fixed summary in a \<open>```json\<close> fence; the JSON codec knows the summaries of the
  scenario and results with the summary of the scenario, and rejects every other text.
\<close>

definition demo_id :: pystr where
  "demo_id = lit ''dQw4w9WgXcQ''"

definition demo_url :: pystr where
  "demo_url = lit ''https://youtu.be/dQw4w9WgXcQ''"

definition demo_uuid :: pystr where
  "demo_uuid = lit ''3f2b8c1a-9d4e-4f6a-8b7c-1e2d3c4b5a69''"

definition demo_summary :: json where
  "demo_summary = JObj [(lit ''one_liner'', JStr (lit ''hi'')), (lit ''tags'', JArr [JStr (lit ''a'')])]"

definition quoted :: "pystr \<Rightarrow> pystr" where
  "quoted s = [34] @ s @ [34]"

definition demo_summary_text :: pystr where
  "demo_summary_text =
     lit ''{'' @ quoted (lit ''one_liner'') @ lit '': '' @ quoted (lit ''hi'') @ lit '', '' @
     quoted (lit ''tags'') @ lit '': ['' @ quoted (lit ''a'') @ lit '']}''"

definition demo_fenced :: pystr where
  "demo_fenced = lit ''```json'' @ [10] @ demo_summary_text @ [10] @ lit ''```''"


definition decode_error :: exn where
  "decode_error = Exn JSONDecodeError (lit ''Expecting value: line 1 column 1 (char 0)'')"

text \<open>
  A document of the double codec is \<open>doc:\<close>, then the identifier, the timestamp, the
  transcript and the translation, each between double quotes, with \<open>#\<close> between them,
  then \<open>;\<close>.  It is written in nine pieces, each quoted text in a piece of its own, as
  \<open>json.dump\<close> writes each string, between its quotes, in a piece of its own.
\<close>

definition doc_result :: "pystr \<Rightarrow> pystr \<Rightarrow> pystr \<Rightarrow> pystr \<Rightarrow> json" where
  "doc_result vid stamp original korean =
     JObj [(lit ''video_id'', JStr vid),
           (lit ''video_url'', JStr (lit ''https://www.youtube.com/watch?v='' @ vid)),
           (lit ''original_transcript'', JStr original),
           (lit ''korean_transcript'', JStr korean),
           (lit ''summary'', demo_summary),
           (lit ''processed_at'', JStr stamp)]"

definition doc_chunks :: "pystr \<Rightarrow> pystr \<Rightarrow> pystr \<Rightarrow> pystr \<Rightarrow> pystr list" where
  "doc_chunks vid stamp original korean =
     [lit ''doc:'', quoted vid, lit ''#'', quoted stamp, lit ''#'', quoted original, lit ''#'',
      quoted korean, lit '';'']"

definition demo_doc :: "pystr \<Rightarrow> pystr \<Rightarrow> pystr" where
  "demo_doc vid stamp = concat (doc_chunks vid stamp (lit ''Hello world'') (lit ''annyeong''))"

definition demo_chunks :: "json \<Rightarrow> pystr list" where
  "demo_chunks v =
     (case v of
        JObj [(_, JStr vid), _, (_, JStr original), (_, JStr korean), _, (_, JStr stamp)] \<Rightarrow>
          doc_chunks vid stamp original korean
      | JArr [] \<Rightarrow> [lit ''[]'']
      | _ \<Rightarrow> [lit ''null''])"

text \<open>The fields of a text between the occurrences of a separator.\<close>

fun split_on :: "nat \<Rightarrow> pystr \<Rightarrow> pystr list" where
  "split_on sep [] = [[]]"
| "split_on sep (c # s) =
     (if c = sep then [] # split_on sep s
      else (case split_on sep s of [] \<Rightarrow> [[c]] | f # fs \<Rightarrow> (c # f) # fs))"

text \<open>The text between the quotes of a quoted text.\<close>

definition unquote :: "pystr \<Rightarrow> pystr option" where
  "unquote f =
     (if 2 \<le> length f \<and> hd f = 34 \<and> last f = 34 then Some (butlast (tl f)) else None)"

definition demo_loads :: "pystr \<Rightarrow> exn + json" where
  "demo_loads s =
     (if s = demo_summary_text then Inr demo_summary
      else if s = lit ''[]'' then Inr (JArr [])
      else if starts_with (lit ''doc:'') s \<and> ends_with (lit '';'') s
      then (case map unquote (split_on 35 (butlast (drop 4 s))) of
              [Some vid, Some stamp, Some original, Some korean] \<Rightarrow>
                Inr (doc_result vid stamp original korean)
            | _ \<Rightarrow> Inl decode_error)
      else Inl decode_error)"

definition demo_fetch :: "pystr \<Rightarrow> pystr list option \<Rightarrow> exn + fragment list" where
  "demo_fetch vid languages =
     (case languages of
        Some _ \<Rightarrow> Inl (Exn ServiceError (lit ''no transcript in these languages''))
      | None \<Rightarrow> Inr [Fragment (lit ''Hello''), Fragment (lit ''world'')])"

definition demo_create :: "pystr \<Rightarrow> request \<Rightarrow> exn + content_block list" where
  "demo_create summary_text req =
     (if system_prompt req = TranslatePrompt then Inr [TextBlock (lit ''annyeong'')]
      else Inr [TextBlock summary_text])"

definition demo_services :: services where
  "demo_services =
     \<lparr>getenv_api_key = Some (lit ''sk-demo''),
      api_fetch = demo_fetch,
      messages_create = demo_create demo_fenced,
      json_loads = demo_loads,
      json_chunks = demo_chunks,
      now_isoformat = lit ''2024-01-02T03:04:05'',
      render_html = (\<lambda>vid korean summary. lit ''<html>'' @ vid),
      output_dir = lit ''output'',
      lt_other = (\<lambda>a b. Inl (Exn TypeError (lit ''not supported'')))\<rparr>"

definition empty_world :: world where
  "empty_world = \<lparr>jobs = (\<lambda>_. None), files = (\<lambda>_. None), trace = []\<rparr>"

section \<open>The stage sequence of the specification\<close>

text \<open>
  The sequence Extract, Fetch Transcript, Translate, Summarize as the specification
  words it: each stage is given the output of the one before, the first failure ends
  the sequence and is its result, and the service calls made are those of the stages
  that ran.  The orchestrators of the code are compared with it.
\<close>

definition stage_sequence ::
    "services \<Rightarrow> pystr \<Rightarrow> (exn + pystr \<times> pystr \<times> pystr \<times> json) \<times> event list" where
  "stage_sequence sv url =
     (case extract_video_id url of
        Inl e \<Rightarrow> (Inl e, [])
      | Inr vid \<Rightarrow>
          (case extract_transcript sv vid of
             (Inl e, c1) \<Rightarrow> (Inl e, c1)
           | (Inr original, c1) \<Rightarrow>
               (case translate sv original of
                  (Inl e, c2) \<Rightarrow> (Inl e, c1 @ c2)
                | (Inr korean, c2) \<Rightarrow>
                    (case summarize sv korean of
                       (Inl e, c3) \<Rightarrow> (Inl e, c1 @ c2 @ c3)
                     | (Inr summary, c3) \<Rightarrow>
                         (Inr (vid, original, korean, summary), c1 @ c2 @ c3)))))"

text \<open>The scenario with a model that answers the summary request with \<open>[]\<close>.\<close>

definition list_summary_services :: services where
  "list_summary_services = demo_services\<lparr>messages_create := demo_create (lit ''[]'')\<rparr>"

text \<open>The scenario with a model whose summary is not JSON.\<close>

definition prose_summary_services :: services where
  "prose_summary_services = demo_services\<lparr>messages_create := demo_create (lit ''Sure! Here it is'')\<rparr>"

text \<open>
  The text of \<open>str(uuid.uuid4())\<close>: 36 characters, hyphens at positions 8, 13, 18 and
  23, lower-case hexadecimal digits elsewhere.
\<close>

definition is_hex :: "nat \<Rightarrow> bool" where
  "is_hex c = ((48 \<le> c \<and> c \<le> 57) \<or> (97 \<le> c \<and> c \<le> 102))"

definition is_uuid_text :: "pystr \<Rightarrow> bool" where
  "is_uuid_text u =
     (length u = 36 \<and>
      list_all (\<lambda>i. if i \<in> {8, 13, 18, 23} then u ! i = 45 else is_hex (u ! i)) [0..<36])"

definition demo_uuid2 :: pystr where
  "demo_uuid2 = lit ''3f2b8c1a-0000-4000-8000-000000000000''"

section \<open>Vocabulary of the statements about the store\<close>












text \<open>The projection \<open>list_results\<close> makes of the document stored under a name.\<close>

definition stored_projection :: "services \<Rightarrow> world \<Rightarrow> pystr \<Rightarrow> exn + json" where
  "stored_projection sv w name =
     (case files w name of
        None \<Rightarrow> Inl (file_not_found sv name)
      | Some doc \<Rightarrow> bind_sum (json_loads sv doc) projection)"

text \<open>
  A document that \<open>list_results\<close> can take: a dictionary whose \<open>summary\<close>, when there is
  one, is a dictionary, and whose \<open>processed_at\<close> is a string.
\<close>

definition listable :: "json \<Rightarrow> bool" where
  "listable data =
     (case data of
        JObj kvs \<Rightarrow>
          (case map_of kvs (lit ''summary'') of
             None \<Rightarrow> True | Some (JObj _) \<Rightarrow> True | Some _ \<Rightarrow> False) \<and>
          (case map_of kvs (lit ''processed_at'') of Some (JStr _) \<Rightarrow> True | _ \<Rightarrow> False)
      | _ \<Rightarrow> False)"

definition stored_listable :: "services \<Rightarrow> world \<Rightarrow> pystr \<Rightarrow> bool" where
  "stored_listable sv w name =
     (case files w name of
        None \<Rightarrow> False
      | Some doc \<Rightarrow> (case json_loads sv doc of Inl _ \<Rightarrow> False | Inr data \<Rightarrow> listable data))"

text \<open>The projection of a result whose summary is the dictionary \<open>kvs\<close>.\<close>

definition result_projection :: "pystr \<Rightarrow> (pystr \<times> json) list \<Rightarrow> pystr \<Rightarrow> json" where
  "result_projection vid kvs stamp =
     JObj [(lit ''video_id'', JStr vid),
           (lit ''one_liner'', case map_of kvs (lit ''one_liner'') of Some x \<Rightarrow> x | None \<Rightarrow> JStr []),
           (lit ''tags'', case map_of kvs (lit ''tags'') of Some x \<Rightarrow> x | None \<Rightarrow> JArr []),
           (lit ''processed_at'', JStr stamp)]"

section \<open>Vocabulary of the statements about fences\<close>

text \<open>
  A text of whitespace only, and a payload in a \<open>```json\<close> fence: whitespace, the
  opening fence, whitespace, the payload, whitespace, the closing fence, whitespace.
\<close>

definition blank :: "pystr \<Rightarrow> bool" where
  "blank s = list_all is_space s"

definition json_fenced :: "pystr \<Rightarrow> pystr \<Rightarrow> pystr \<Rightarrow> pystr \<Rightarrow> pystr \<Rightarrow> pystr" where
  "json_fenced lead ws1 q ws2 trail = lead @ FENCE_JSON @ ws1 @ q @ ws2 @ FENCE @ trail"

text \<open>The summary of the scenario in a fence with no language tag, and on its own.\<close>

definition demo_bare_fenced :: pystr where
  "demo_bare_fenced = FENCE @ [10] @ demo_summary_text @ [10] @ FENCE"

definition bare_fence_services :: services where
  "bare_fence_services = demo_services\<lparr>messages_create := demo_create demo_bare_fenced\<rparr>"

definition plain_services :: services where
  "plain_services = demo_services\<lparr>messages_create := demo_create demo_summary_text\<rparr>"

section \<open>Vocabulary of the statements about the listing\<close>

text \<open>The document stored under a name, when the codec reads it.\<close>

definition stored_document :: "services \<Rightarrow> world \<Rightarrow> pystr \<Rightarrow> json option" where
  "stored_document sv w name =
     (case files w name of
        None \<Rightarrow> None
      | Some doc \<Rightarrow> (case json_loads sv doc of Inl _ \<Rightarrow> None | Inr data \<Rightarrow> Some data))"

text \<open>
  A store with the document of the scenario, its report, and a file that a writer left
  after its first character.
\<close>

definition demo_store :: world where
  "demo_store =
     empty_world\<lparr>files := (\<lambda>name.
       if name = json_name demo_id then Some (demo_doc demo_id (lit ''2024-01-02T03:04:05''))
       else if name = html_name demo_id then Some (lit ''<html>'' @ demo_id)
       else if name = lit ''partial.json'' then Some (lit ''{'')
       else None)\<rparr>"

text \<open>A store with three results, saved in January, a fraction of a second later, and in March.\<close>

definition id_a :: pystr where
  "id_a = lit ''aaaaaaaaaaa''"

definition id_b :: pystr where
  "id_b = lit ''bbbbbbbbbbb''"

definition id_c :: pystr where
  "id_c = lit ''ccccccccccc''"

definition stamp1 :: pystr where
  "stamp1 = lit ''2024-01-02T03:04:05''"

definition stamp2 :: pystr where
  "stamp2 = lit ''2024-01-02T03:04:05.000123''"

definition stamp3 :: pystr where
  "stamp3 = lit ''2024-03-01T00:00:00''"

definition three_store :: world where
  "three_store =
     empty_world\<lparr>files := (\<lambda>name.
       if name = json_name id_a then Some (demo_doc id_a stamp1)
       else if name = json_name id_b then Some (demo_doc id_b stamp2)
       else if name = json_name id_c then Some (demo_doc id_c stamp3)
       else if name = html_name id_b then Some (lit ''<html>'' @ id_b)
       else None)\<rparr>"

section \<open>Properties\<close>

subsection \<open>Effects of the steps, and the test doubles evaluated\<close>



lemma write_file_eq:
  "write_file name chunks =
     (\<lambda>w. ((case fst (write_chunks [] chunks) of None \<Rightarrow> Inr () | Some e \<Rightarrow> Inl e),
           w\<lparr>files := (files w)(name \<mapsto> snd (write_chunks [] chunks)),
             trace := trace w @ [FileWrite name (snd (write_chunks [] chunks))]\<rparr>))"
  by (simp add: write_file_def fun_eq_iff split: prod.splits)

lemmas io_defs = bind_io_def set_job_def call_def write_file_eq

lemmas run_defs = submit_and_run_def start_translation_def process_video_def try_block_def
  except_block_def io_defs new_events_def save_artifacts_def new_job_def

lemma job_history_append: "job_history jid (xs @ ys) = job_history jid xs @ job_history jid ys"
  by (induction jid xs rule: job_history.induct) auto

lemma terminal_writes_append:
  "terminal_writes jid (xs @ ys) = terminal_writes jid xs @ terminal_writes jid ys"
  by (simp add: terminal_writes_def)

lemma terminal_writes_Nil: "terminal_writes jid [] = []"
  by (simp add: terminal_writes_def)

lemma terminal_writes_Cons:
  "terminal_writes jid (e # es) =
     (if is_terminal_write jid e then e # terminal_writes jid es else terminal_writes jid es)"
  by (simp add: terminal_writes_def)

lemma outside_effects_append: "outside_effects (xs @ ys) = outside_effects xs @ outside_effects ys"
  by (induction xs rule: outside_effects.induct) auto

lemma before_terminal_append:
  "list_all (\<lambda>e. \<not> is_terminal_write jid e) xs \<Longrightarrow>
   before_terminal jid (xs @ ys) = xs @ before_terminal jid ys"
  by (simp add: before_terminal_def list_all_iff)

lemma before_terminal_Cons:
  "before_terminal jid (e # es) =
     (if is_terminal_write jid e then [] else e # before_terminal jid es)"
  by (simp add: before_terminal_def)

lemma before_terminal_Nil: "before_terminal jid [] = []"
  by (simp add: before_terminal_def)

lemma calls_extract_transcript:
  "job_history jid (snd (extract_transcript sv vid)) = []"
  "terminal_writes jid (snd (extract_transcript sv vid)) = []"
  "list_all (\<lambda>e. \<not> is_terminal_write jid e) (snd (extract_transcript sv vid))"
  "outside_effects (snd (extract_transcript sv vid)) = snd (extract_transcript sv vid)"
  by (simp_all add: extract_transcript_def terminal_writes_def split: sum.splits)

lemma calls_translate:
  "job_history jid (snd (translate sv t)) = []"
  "terminal_writes jid (snd (translate sv t)) = []"
  "list_all (\<lambda>e. \<not> is_terminal_write jid e) (snd (translate sv t))"
  "outside_effects (snd (translate sv t)) = snd (translate sv t)"
  by (simp_all add: translate_def terminal_writes_def split: sum.splits)

lemma calls_summarize:
  "job_history jid (snd (summarize sv t)) = []"
  "terminal_writes jid (snd (summarize sv t)) = []"
  "list_all (\<lambda>e. \<not> is_terminal_write jid e) (snd (summarize sv t))"
  "outside_effects (snd (summarize sv t)) = snd (summarize sv t)"
  by (simp_all add: summarize_def terminal_writes_def split: sum.splits)

lemmas calls_simps = job_history_append terminal_writes_append outside_effects_append
  terminal_writes_Nil terminal_writes_Cons
  before_terminal_append before_terminal_Cons before_terminal_Nil
  calls_extract_transcript calls_translate calls_summarize

text \<open>The test doubles, evaluated.\<close>

lemma demo_fields:
  "getenv_api_key demo_services = Some (lit ''sk-demo'')"
  "api_fetch demo_services = demo_fetch"
  "messages_create demo_services = demo_create demo_fenced"
  "json_loads demo_services = demo_loads"
  "json_chunks demo_services = demo_chunks"
  "now_isoformat demo_services = lit ''2024-01-02T03:04:05''"
  "render_html demo_services = (\<lambda>vid korean summary. lit ''<html>'' @ vid)"
  "output_dir demo_services = lit ''output''"
  by (simp_all add: demo_services_def)

lemma demo_key: "require_api_key demo_services = Inr (lit ''sk-demo'')"
  by (simp add: require_api_key_def demo_fields lit_def)

lemma demo_transcript:
  "extract_transcript demo_services vid =
     (Inr (lit ''Hello world''), [FetchCall vid (Some LANGUAGES), FetchCall vid None])"
  by (simp add: extract_transcript_def demo_fields demo_fetch_def join_fragments_def lit_def)

lemma demo_translate:
  "translate demo_services t = (Inr (lit ''annyeong''), [ModelCall (translate_request t)])"
  by (simp add: translate_def demo_fields demo_create_def translate_request_def)

lemma demo_extract: "extract_video_id demo_url = Inr demo_id"
  by (simp add: extract_video_id_def lit_def URL_PREFIXES_def starts_with_def match_id11_def
      is_id_char_def search_bare_def demo_url_def demo_id_def)

lemma demo_parse: "parse_summary demo_services demo_fenced = Inr demo_summary"
  by (simp add: parse_summary_def demo_fields demo_loads_def demo_fenced_def
      demo_summary_text_def quoted_def strip_fences_def FENCE_JSON_def FENCE_def py_strip_def
      lit_def is_space_def starts_with_def closing_here_def)

lemma demo_summarize:
  "summarize demo_services k = (Inr demo_summary, [ModelCall (summarize_request k)])"
  by (simp add: summarize_def bind_sum_def demo_fields(3) demo_create_def summarize_request_def
      demo_parse)

lemma demo_html:
  "generate_html demo_services vid k demo_summary = Inr (lit ''<html>'' @ vid)"
  by (simp add: generate_html_def bind_sum_def py_get_def py_iter_def demo_fields demo_summary_def
      lit_def)

lemma demo_write_json:
  "write_chunks []
     (json_chunks demo_services
        (make_result demo_services demo_id (lit ''Hello world'') (lit ''annyeong'') summary)) =
   (None, demo_doc demo_id (lit ''2024-01-02T03:04:05''))"
  by (simp add: demo_fields make_result_def demo_chunks_def doc_chunks_def demo_doc_def
      quoted_def demo_id_def is_surrogate_def lit_def)

lemma demo_write_html:
  "\<not> list_ex is_surrogate (lit ''<html>'')" "\<not> list_ex is_surrogate demo_id"
  by (simp_all add: demo_id_def is_surrogate_def lit_def)

lemmas demo_run = demo_key demo_extract demo_transcript demo_translate demo_summarize demo_html
  demo_write_json demo_write_html

lemma ends_with_iff: "ends_with p s \<longleftrightarrow> (\<exists>a. s = a @ p)"
proof
  assume "ends_with p s"
  then have "s = take (length s - length p) s @ p"
    by (metis append_take_drop_id ends_with_def)
  then show "\<exists>a. s = a @ p" ..
next
  assume "\<exists>a. s = a @ p"
  then show "ends_with p s" by (auto simp add: ends_with_def)
qed










lemma demo_stamp_no_hash: "35 \<notin> set (lit ''2024-01-02T03:04:05'')"
  by (simp add: lit_def)

subsection \<open>Identifier extraction\<close>

lemma match_id11_Some: "match_id11 s = Some t \<longleftrightarrow> is_token t \<and> starts_with t s"
  by (auto simp: match_id11_def is_token_def starts_with_def Let_def)

lemma starts_with_append:
  "starts_with (p @ t) s \<longleftrightarrow> starts_with p s \<and> starts_with t (drop (length p) s)"
proof
  assume a: "starts_with (p @ t) s"
  then have e: "take (length p + length t) s = p @ t" by (simp add: starts_with_def)
  then have "length (take (length p + length t) s) = length p + length t" by simp
  then have l: "length p + length t \<le> length s" by simp
  have "take (length p) s @ take (length t) (drop (length p) s) = p @ t"
    using e by (simp add: take_add)
  moreover have "length (take (length p) s) = length p" using l by simp
  ultimately have "take (length p) s = p \<and> take (length t) (drop (length p) s) = t"
    by (meson append_eq_append_conv)
  then show "starts_with p s \<and> starts_with t (drop (length p) s)"
    by (simp add: starts_with_def)
next
  assume "starts_with p s \<and> starts_with t (drop (length p) s)"
  then show "starts_with (p @ t) s" by (simp add: starts_with_def take_add)
qed

lemma match_alternatives_Some:
  "match_alternatives ps s = Some t \<Longrightarrow> is_token t \<and> (\<exists>p\<in>set ps. starts_with (p @ t) s)"
  by (induction ps) (auto simp: match_id11_Some starts_with_append split: if_splits option.splits)

lemma starts_with_Cons: "starts_with (c # p) s \<longleftrightarrow> (\<exists>r. s = c # r \<and> starts_with p r)"
  by (cases s) (auto simp: starts_with_def)

lemma starts_with_Nil [simp]: "starts_with [] s"
  by (simp add: starts_with_def)

lemma match0_complete:
  assumes "is_token t" "p \<in> set URL_PREFIXES" "starts_with (p @ t) s"
  shows "match_alternatives URL_PREFIXES s = Some t"
proof -
  have m: "match_id11 (drop (length p) s) = Some t" and sp: "starts_with p s"
    using assms by (simp_all add: starts_with_append match_id11_Some)
  from assms(2) consider "p = lit ''v=''" | "p = lit ''/v/''" | "p = lit ''youtu.be/''"
    by (auto simp: URL_PREFIXES_def)
  then show ?thesis
  proof cases
    case 1 with m sp show ?thesis by (simp add: URL_PREFIXES_def)
  next
    case 2
    with sp have "\<not> starts_with (lit ''v='') s"
      by (auto simp: lit_def starts_with_Cons)
    with 2 m sp show ?thesis by (simp add: URL_PREFIXES_def)
  next
    case 3
    with sp have "\<not> starts_with (lit ''v='') s" "\<not> starts_with (lit ''/v/'') s"
      by (auto simp: lit_def starts_with_Cons)
    with 3 m sp show ?thesis by (simp add: URL_PREFIXES_def)
  qed
qed

lemma token_at_iff: "token_at s i t \<longleftrightarrow> match_alternatives URL_PREFIXES (drop i s) = Some t"
  unfolding token_at_def list_ex_iff
  using match0_complete match_alternatives_Some by blast

lemma match0_Nil: "match_alternatives URL_PREFIXES [] = None"
  by (simp add: URL_PREFIXES_def lit_def starts_with_def)

lemma search_url_leftmost:
  "match_alternatives URL_PREFIXES (drop i s) = Some t \<Longrightarrow>
   (\<forall>j<i. match_alternatives URL_PREFIXES (drop j s) = None) \<Longrightarrow> search_url s = Some t"
proof (induction s arbitrary: i)
  case Nil
  then show ?case by (simp add: match0_Nil)
next
  case (Cons c s)
  show ?case
  proof (cases i)
    case 0
    with Cons.prems show ?thesis by simp
  next
    case (Suc k)
    with Cons.prems have h0: "match_alternatives URL_PREFIXES (c # s) = None"
      by (metis drop0 zero_less_Suc)
    have "match_alternatives URL_PREFIXES (drop k s) = Some t"
      using Cons.prems(1) Suc by simp
    moreover have "\<forall>j<k. match_alternatives URL_PREFIXES (drop j s) = None"
    proof (intro allI impI)
      fix j assume "j < k"
      then have "Suc j < i" using Suc by simp
      with Cons.prems(2) have "match_alternatives URL_PREFIXES (drop (Suc j) (c # s)) = None"
        by blast
      then show "match_alternatives URL_PREFIXES (drop j s) = None" by simp
    qed
    ultimately have "search_url s = Some t" by (rule Cons.IH)
    with h0 show ?thesis by simp
  qed
qed

lemma search_url_None:
  "(\<forall>i. match_alternatives URL_PREFIXES (drop i s) = None) \<Longrightarrow> search_url s = None"
proof (induction s)
  case Nil
  then show ?case by (simp add: match0_Nil)
next
  case (Cons c s)
  have "match_alternatives URL_PREFIXES (c # s) = None"
    using Cons.prems by (metis drop0)
  moreover have "\<forall>i. match_alternatives URL_PREFIXES (drop i s) = None"
  proof
    fix i
    from Cons.prems have "match_alternatives URL_PREFIXES (drop (Suc i) (c # s)) = None" by blast
    then show "match_alternatives URL_PREFIXES (drop i s) = None" by simp
  qed
  ultimately show ?case using Cons.IH by simp
qed

lemma search_url_Some:
  "search_url s = Some t \<Longrightarrow> \<exists>i. match_alternatives URL_PREFIXES (drop i s) = Some t"
proof (induction s)
  case Nil
  then show ?case by (simp add: match0_Nil)
next
  case (Cons c s)
  show ?case
  proof (cases "match_alternatives URL_PREFIXES (c # s)")
    case None
    with Cons.prems have "search_url s = Some t" by simp
    then obtain i where "match_alternatives URL_PREFIXES (drop i s) = Some t"
      using Cons.IH by blast
    then have "match_alternatives URL_PREFIXES (drop (Suc i) (c # s)) = Some t" by simp
    then show ?thesis by blast
  next
    case (Some u)
    with Cons.prems have "u = t" by simp
    with Some have "match_alternatives URL_PREFIXES (drop 0 (c # s)) = Some t" by simp
    then show ?thesis by blast
  qed
qed

text \<open>A prefix holds a character outside the class, and a token follows it.\<close>

lemma token_needs_nonid:
  assumes "match_alternatives URL_PREFIXES u = Some t"
  shows "\<exists>k. k + 11 < length u \<and> \<not> is_id_char (u ! k)"
proof -
  from match_alternatives_Some[OF assms] obtain p where
    p: "p \<in> set URL_PREFIXES" and st: "starts_with (p @ t) u" and tk: "is_token t"
    by blast
  from st have e: "take (length p + length t) u = p @ t" by (simp add: starts_with_def)
  then have "length (take (length p + length t) u) = length p + length t" by simp
  then have l: "length p + 11 \<le> length u" using tk by (simp add: is_token_def)
  from p consider "p = lit ''v=''" | "p = lit ''/v/''" | "p = lit ''youtu.be/''"
    by (auto simp: URL_PREFIXES_def)
  then have "\<exists>k. k < length p \<and> \<not> is_id_char (p ! k)"
  proof cases
    case 1
    then have "1 < length p \<and> \<not> is_id_char (p ! 1)" by (simp add: lit_def is_id_char_def)
    then show ?thesis by blast
  next
    case 2
    then have "0 < length p \<and> \<not> is_id_char (p ! 0)" by (simp add: lit_def is_id_char_def)
    then show ?thesis by blast
  next
    case 3
    then have "8 < length p \<and> \<not> is_id_char (p ! 8)" by (simp add: lit_def is_id_char_def)
    then show ?thesis by blast
  qed
  then obtain k where k: "k < length p" "\<not> is_id_char (p ! k)" by blast
  have "u ! k = take (length p + length t) u ! k" using k by simp
  also have "\<dots> = p ! k" using k by (simp add: e nth_append)
  finally have "\<not> is_id_char (u ! k)" using k by simp
  moreover have "k + 11 < length u" using k l by linarith
  ultimately show ?thesis by blast
qed

lemma token_no_match:
  assumes "is_token t" "s = t \<or> s = t @ [10]"
  shows "match_alternatives URL_PREFIXES (drop i s) = None"
proof (rule ccontr)
  assume "match_alternatives URL_PREFIXES (drop i s) \<noteq> None"
  then obtain u where "match_alternatives URL_PREFIXES (drop i s) = Some u" by blast
  from token_needs_nonid[OF this] obtain k where
    k: "k + 11 < length (drop i s)" "\<not> is_id_char (drop i s ! k)" by blast
  have len: "length s \<le> 12" using assms by (auto simp: is_token_def)
  with k(1) have "i = 0" "k = 0" by simp_all
  with k(2) have "\<not> is_id_char (s ! 0)" by simp
  moreover have "s ! 0 = t ! 0" using assms by (auto simp: is_token_def nth_append)
  moreover have "is_id_char (t ! 0)"
    using assms(1) by (simp add: is_token_def list_all_length)
  ultimately show False by simp
qed

lemma search_bare_token:
  assumes "is_token t"
  shows "search_bare t = Some t" "search_bare (t @ [10]) = Some t"
  using assms by (simp_all add: search_bare_def match_id11_def is_token_def)

lemma no_token_iff: "(\<forall>j u. \<not> token_at s j u) \<longleftrightarrow> search_url s = None"
proof
  assume "\<forall>j u. \<not> token_at s j u"
  then have "\<forall>i. match_alternatives URL_PREFIXES (drop i s) = None"
    by (simp add: token_at_iff)
  then show "search_url s = None" by (rule search_url_None)
next
  assume n: "search_url s = None"
  show "\<forall>j u. \<not> token_at s j u"
  proof (intro allI notI)
    fix j u assume "token_at s j u"
    then have m: "match_alternatives URL_PREFIXES (drop j s) = Some u" by (simp add: token_at_iff)
    define i where "i = (LEAST i. \<exists>v. match_alternatives URL_PREFIXES (drop i s) = Some v)"
    have ex: "\<exists>v. match_alternatives URL_PREFIXES (drop i s) = Some v"
      unfolding i_def by (rule LeastI[of _ j]) (use m in blast)
    have "\<forall>k<i. match_alternatives URL_PREFIXES (drop k s) = None"
    proof (intro allI impI)
      fix k assume "k < i"
      then have "\<not> (\<exists>v. match_alternatives URL_PREFIXES (drop k s) = Some v)"
        unfolding i_def by (rule not_less_Least)
      then show "match_alternatives URL_PREFIXES (drop k s) = None" by simp
    qed
    with ex obtain v where "search_url s = Some v" using search_url_leftmost by blast
    with n show False by simp
  qed
qed

text \<open>
  C3, as the code has it.  Extraction returns the token that follows the leftmost place
  where \<open>v=\<close>, \<open>/v/\<close> or \<open>youtu.be/\<close> is followed by eleven characters of the
  class; a string that is itself an eleven-character token, as it stands or followed by
  one final newline, is returned as that token; a string with no such place that is not
  such a token fails with \<open>ValueError\<close> (the code's error for an invalid identifier),
  whose text ends with the input.  The input is not trimmed.
\<close>

theorem extract_video_id_rules:
  "(token_at url i t \<and> (\<forall>j<i. \<forall>u. \<not> token_at url j u) \<longrightarrow> extract_video_id url = Inr t) \<and>
   (is_token tok \<longrightarrow> extract_video_id tok = Inr tok \<and> extract_video_id (tok @ [10]) = Inr tok) \<and>
   ((\<forall>j u. \<not> token_at other j u) \<and> \<not> is_token other \<and> \<not> (\<exists>u. is_token u \<and> other = u @ [10]) \<longrightarrow>
      extract_video_id other = Inl (Exn ValueError (INVALID_URL_MSG @ other)))"
proof (intro conjI impI)
  assume a: "token_at url i t \<and> (\<forall>j<i. \<forall>u. \<not> token_at url j u)"
  then have "match_alternatives URL_PREFIXES (drop i url) = Some t"
    by (simp add: token_at_iff)
  moreover from a have "\<forall>j<i. match_alternatives URL_PREFIXES (drop j url) = None"
    by (simp add: token_at_iff)
  ultimately have "search_url url = Some t" by (rule search_url_leftmost)
  then show "extract_video_id url = Inr t" by (simp add: extract_video_id_def)
next
  assume tk: "is_token tok"
  have "search_url tok = None"
    by (rule search_url_None) (use tk token_no_match in blast)
  then show "extract_video_id tok = Inr tok"
    by (simp add: extract_video_id_def search_bare_token[OF tk])
next
  assume tk: "is_token tok"
  have "search_url (tok @ [10]) = None"
    by (rule search_url_None) (use tk token_no_match in blast)
  then show "extract_video_id (tok @ [10]) = Inr tok"
    by (simp add: extract_video_id_def search_bare_token[OF tk])
next
  assume a: "(\<forall>j u. \<not> token_at other j u) \<and> \<not> is_token other \<and>
    \<not> (\<exists>u. is_token u \<and> other = u @ [10])"
  then have n: "search_url other = None" by (simp add: no_token_iff)
  have "search_bare other = None"
  proof (rule ccontr)
    assume "search_bare other \<noteq> None"
    then obtain u where u: "match_id11 other = Some u" "drop 11 other = [] \<or> drop 11 other = [10]"
      by (auto simp: search_bare_def split: option.splits if_splits)
    then have tu: "is_token u" "take 11 other = u"
      by (auto simp: match_id11_def is_token_def Let_def split: if_splits)
    have "other = take 11 other @ drop 11 other" by simp
    with u(2) tu have "other = u \<or> other = u @ [10]" by auto
    with a tu(1) show False by blast
  qed
  with n show "extract_video_id other = Inl (Exn ValueError (INVALID_URL_MSG @ other))"
    by (simp add: extract_video_id_def)
qed

lemmas extract_eval = lit_def URL_PREFIXES_def starts_with_def match_id11_def is_id_char_def
  search_bare_def is_token_def

text \<open>The rules of C3 at a short link, a bare token, a token with a newline and a sentence.\<close>

theorem extract_video_id_rules_witness:
  "extract_video_id (lit ''https://youtu.be/dQw4w9WgXcQ'') = Inr (lit ''dQw4w9WgXcQ'') \<and>
   extract_video_id (lit ''dQw4w9WgXcQ'') = Inr (lit ''dQw4w9WgXcQ'') \<and>
   extract_video_id (lit ''dQw4w9WgXcQ'' @ [10]) = Inr (lit ''dQw4w9WgXcQ'') \<and>
   extract_video_id (lit ''not a video'') = Inl (Exn ValueError (INVALID_URL_MSG @ lit ''not a video''))"
proof -
  have 1: "token_at (lit ''https://youtu.be/dQw4w9WgXcQ'') 8 (lit ''dQw4w9WgXcQ'')"
    by (simp add: token_at_def extract_eval)
  have 2: "\<forall>j<8. \<forall>u. \<not> token_at (lit ''https://youtu.be/dQw4w9WgXcQ'') j u"
    by (simp add: token_at_iff eval_nat_numeral All_less_Suc extract_eval)
  have 3: "is_token (lit ''dQw4w9WgXcQ'')" by (simp add: extract_eval)
  have 4: "\<forall>j u. \<not> token_at (lit ''not a video'') j u"
    by (simp add: no_token_iff extract_eval)
  have 5: "\<not> is_token (lit ''not a video'')" by (simp add: extract_eval)
  have 6: "\<not> (\<exists>u. is_token u \<and> lit ''not a video'' = u @ [10])"
    by (auto simp: extract_eval)
  show ?thesis
    using extract_video_id_rules[of "lit ''https://youtu.be/dQw4w9WgXcQ''" 8 "lit ''dQw4w9WgXcQ''"
        "lit ''dQw4w9WgXcQ''" "lit ''not a video''"] 1 2 3 4 5 6
    by blast
qed

text \<open>
  C3 as stated fails: the input \<open>" dQw4w9WgXcQ "\<close> is, after trimming, an
  eleven-character token, and extraction raises \<open>ValueError\<close>.
\<close>

theorem extract_video_id_no_trim_counterexample:
  "py_strip (lit '' dQw4w9WgXcQ '') = lit ''dQw4w9WgXcQ'' \<and> is_token (lit ''dQw4w9WgXcQ'') \<and>
   extract_video_id (lit '' dQw4w9WgXcQ '') =
     Inl (Exn ValueError (INVALID_URL_MSG @ lit '' dQw4w9WgXcQ ''))"
  by (simp add: extract_video_id_def py_strip_def is_space_def extract_eval)

subsection \<open>Transcript source adapter\<close>

lemma py_join_two: "py_join sep [a, b] = a @ sep @ b"
  by simp



subsection \<open>Job registry and background task\<close>

text \<open>
  C1, as the code has it.  For one submission and its background task: the task ends
  without an exception; the statuses a poll can see are pending, then processing, then
  one terminal status that stays; before the terminal status is assigned a poll sees
  pending or processing; the terminal status is assigned exactly once; and when the task
  has ended the entry is either completed with a result and no error, or failed with an
  error text and no result.
\<close>

theorem job_lifecycle:
  "fst (submit_and_run sv uuid url w) = None \<and>
   lifecycle (map status (job_history (take 8 uuid)
      (new_events w (snd (submit_and_run sv uuid url w))))) \<and>
   list_all unfinished (map status (job_history (take 8 uuid)
      (before_terminal (take 8 uuid) (new_events w (snd (submit_and_run sv uuid url w)))))) \<and>
   length (terminal_writes (take 8 uuid) (new_events w (snd (submit_and_run sv uuid url w)))) = 1 \<and>
   jobs (snd (submit_and_run sv uuid url w)) (take 8 uuid) =
     Some (last (job_history (take 8 uuid) (new_events w (snd (submit_and_run sv uuid url w))))) \<and>
   (case jobs (snd (submit_and_run sv uuid url w)) (take 8 uuid) of
      None \<Rightarrow> False
    | Some j \<Rightarrow>
        (status j = Completed \<and> result j \<noteq> None \<and> error j = None) \<or>
        (status j = Failed \<and> error j \<noteq> None \<and> result j = None))"
  by (simp add: run_defs terminal_def unfinished_def calls_simps split: sum.splits)

text \<open>The lifecycle of C1 in the run of the scenario, which completes.\<close>

theorem job_lifecycle_witness:
  "lifecycle (map status (job_history (take 8 demo_uuid)
      (new_events empty_world (snd (submit_and_run demo_services demo_uuid demo_url empty_world))))) \<and>
   map status (job_history (take 8 demo_uuid)
      (new_events empty_world (snd (submit_and_run demo_services demo_uuid demo_url empty_world)))) =
     [Pending, Processing, Processing, Processing, Processing, Processing, Processing,
      Completed, Completed, Completed]"
proof -
  have "map status (job_history (take 8 demo_uuid)
      (new_events empty_world (snd (submit_and_run demo_services demo_uuid demo_url empty_world)))) =
     [Pending, Processing, Processing, Processing, Processing, Processing, Processing,
      Completed, Completed, Completed]"
    by (simp add: run_defs calls_simps demo_run empty_world_def)
  with job_lifecycle[of demo_services demo_uuid demo_url empty_world] show ?thesis by simp
qed

text \<open>
  C1 as stated fails: in the run of the scenario the task makes sixteen effects; after
  the first fourteen, so before it has ended, a poll sees the status completed, and no
  result is attached yet.
\<close>

theorem poll_before_end_counterexample:
  "length (new_events empty_world
      (snd (submit_and_run demo_services demo_uuid demo_url empty_world))) = 16 \<and>
   status (last (job_history (take 8 demo_uuid) (take 14 (new_events empty_world
      (snd (submit_and_run demo_services demo_uuid demo_url empty_world)))))) = Completed \<and>
   result (last (job_history (take 8 demo_uuid) (take 14 (new_events empty_world
      (snd (submit_and_run demo_services demo_uuid demo_url empty_world)))))) = None"
  by (simp add: run_defs demo_run empty_world_def)

subsection \<open>Pipeline orchestrators\<close>

lemma list_summary_fields:
  "getenv_api_key list_summary_services = Some (lit ''sk-demo'')"
  "api_fetch list_summary_services = demo_fetch"
  "messages_create list_summary_services = demo_create (lit ''[]'')"
  "json_loads list_summary_services = demo_loads"
  "json_chunks list_summary_services = demo_chunks"
  "now_isoformat list_summary_services = lit ''2024-01-02T03:04:05''"
  by (simp_all add: list_summary_services_def demo_services_def)

lemma list_summary_run:
  "require_api_key list_summary_services = Inr (lit ''sk-demo'')"
  "extract_transcript list_summary_services vid =
     (Inr (lit ''Hello world''), [FetchCall vid (Some LANGUAGES), FetchCall vid None])"
  "translate list_summary_services t = (Inr (lit ''annyeong''), [ModelCall (translate_request t)])"
  "summarize list_summary_services k = (Inr (JArr []), [ModelCall (summarize_request k)])"
  "generate_html list_summary_services vid k (JArr []) = Inl (no_attribute (JArr []) (lit ''get''))"
  by (simp_all add: require_api_key_def extract_transcript_def translate_def summarize_def
      bind_sum_def parse_summary_def generate_html_def py_get_def list_summary_fields
      demo_fetch_def demo_create_def demo_loads_def demo_summary_text_def quoted_def
      translate_request_def summarize_request_def join_fragments_def strip_fences_def
      FENCE_JSON_def FENCE_def py_strip_def lit_def is_space_def starts_with_def closing_here_def)

lemma calls_outside:
  "extract_transcript sv vid = (r1, c) \<Longrightarrow> outside_effects c = c"
  "translate sv t = (r2, c) \<Longrightarrow> outside_effects c = c"
  "summarize sv k = (r3, c) \<Longrightarrow> outside_effects c = c"
  using calls_extract_transcript(4)[of sv vid] calls_translate(4)[of sv t]
    calls_summarize(4)[of sv k]
  by simp_all

text \<open>
  C2, as the code has it.  Both orchestrators run the stage sequence of the
  specification: the first error of Extract, Fetch Transcript, Translate or Summarize
  leaves the \<open>try\<close> unchanged, the service calls made are those of the stages that ran,
  in order, and no file is written.  When the four stages succeed the JSON document is
  written next; an error of that write leaves the \<open>try\<close> unchanged, with the part of the
  document written before it in the file.  In \<open>process_video\<close> the report is generated
  only after the document is written, so an error of report generation, or of the write
  of the report, leaves the \<open>try\<close> with the JSON document persisted.
\<close>

theorem pipeline_stage_order:
  "(jobs w job_id = Some j \<and> require_api_key sv = Inr key \<longrightarrow>
     (case stage_sequence sv url of
        (Inl e, calls) \<Rightarrow>
          fst (try_block sv job_id url w) = Inl e \<and>
          outside_effects (new_events w (snd (try_block sv job_id url w))) = calls \<and>
          files (snd (try_block sv job_id url w)) = files w
      | (Inr (vid, original, korean, summary), calls) \<Rightarrow>
          (case write_chunks [] (json_chunks sv (make_result sv vid original korean summary)) of
             (Some e, part) \<Rightarrow>
               fst (try_block sv job_id url w) = Inl e \<and>
               outside_effects (new_events w (snd (try_block sv job_id url w))) =
                 calls @ [FileWrite (json_name vid) part]
           | (None, document) \<Rightarrow>
               (case generate_html sv vid korean summary of
                  Inl e \<Rightarrow>
                    fst (try_block sv job_id url w) = Inl e \<and>
                    outside_effects (new_events w (snd (try_block sv job_id url w))) =
                      calls @ [FileWrite (json_name vid) document]
                | Inr html \<Rightarrow>
                    (case write_chunks [] [html] of
                       (Some e, part) \<Rightarrow>
                         fst (try_block sv job_id url w) = Inl e \<and>
                         outside_effects (new_events w (snd (try_block sv job_id url w))) =
                           calls @
                           [FileWrite (json_name vid) document, FileWrite (html_name vid) part]
                     | (None, report) \<Rightarrow>
                         fst (try_block sv job_id url w) = Inr () \<and>
                         outside_effects (new_events w (snd (try_block sv job_id url w))) =
                           calls @
                           [FileWrite (json_name vid) document,
                            FileWrite (html_name vid) report]))))) \<and>
   (case stage_sequence sv url of
      (Inl e, calls) \<Rightarrow>
        fst (main_try sv url w) = Inl e \<and>
        new_events w (snd (main_try sv url w)) = calls \<and>
        files (snd (main_try sv url w)) = files w
    | (Inr (vid, original, korean, summary), calls) \<Rightarrow>
        (case write_chunks [] (json_chunks sv (make_result sv vid original korean summary)) of
           (Some e, part) \<Rightarrow>
             fst (main_try sv url w) = Inl e \<and>
             new_events w (snd (main_try sv url w)) = calls @ [FileWrite (json_name vid) part]
         | (None, document) \<Rightarrow>
             fst (main_try sv url w) = print_summary summary \<and>
             new_events w (snd (main_try sv url w)) =
               calls @ [FileWrite (json_name vid) document]))"
proof (intro conjI impI)
  assume "jobs w job_id = Some j \<and> require_api_key sv = Inr key"
  then show "case stage_sequence sv url of
        (Inl e, calls) \<Rightarrow>
          fst (try_block sv job_id url w) = Inl e \<and>
          outside_effects (new_events w (snd (try_block sv job_id url w))) = calls \<and>
          files (snd (try_block sv job_id url w)) = files w
      | (Inr (vid, original, korean, summary), calls) \<Rightarrow>
          (case write_chunks [] (json_chunks sv (make_result sv vid original korean summary)) of
             (Some e, part) \<Rightarrow>
               fst (try_block sv job_id url w) = Inl e \<and>
               outside_effects (new_events w (snd (try_block sv job_id url w))) =
                 calls @ [FileWrite (json_name vid) part]
           | (None, document) \<Rightarrow>
               (case generate_html sv vid korean summary of
                  Inl e \<Rightarrow>
                    fst (try_block sv job_id url w) = Inl e \<and>
                    outside_effects (new_events w (snd (try_block sv job_id url w))) =
                      calls @ [FileWrite (json_name vid) document]
                | Inr html \<Rightarrow>
                    (case write_chunks [] [html] of
                       (Some e, part) \<Rightarrow>
                         fst (try_block sv job_id url w) = Inl e \<and>
                         outside_effects (new_events w (snd (try_block sv job_id url w))) =
                           calls @
                           [FileWrite (json_name vid) document, FileWrite (html_name vid) part]
                     | (None, report) \<Rightarrow>
                         fst (try_block sv job_id url w) = Inr () \<and>
                         outside_effects (new_events w (snd (try_block sv job_id url w))) =
                           calls @
                           [FileWrite (json_name vid) document,
                            FileWrite (html_name vid) report])))"
    by (auto simp add: stage_sequence_def try_block_def save_artifacts_def io_defs
        new_events_def calls_simps calls_outside simp del: write_chunks.simps
        split: sum.splits prod.splits option.splits)
next
  show "case stage_sequence sv url of
      (Inl e, calls) \<Rightarrow>
        fst (main_try sv url w) = Inl e \<and>
        new_events w (snd (main_try sv url w)) = calls \<and>
        files (snd (main_try sv url w)) = files w
    | (Inr (vid, original, korean, summary), calls) \<Rightarrow>
        (case write_chunks [] (json_chunks sv (make_result sv vid original korean summary)) of
           (Some e, part) \<Rightarrow>
             fst (main_try sv url w) = Inl e \<and>
             new_events w (snd (main_try sv url w)) = calls @ [FileWrite (json_name vid) part]
         | (None, document) \<Rightarrow>
             fst (main_try sv url w) = print_summary summary \<and>
             new_events w (snd (main_try sv url w)) =
               calls @ [FileWrite (json_name vid) document])"
    by (auto simp add: stage_sequence_def main_try_def save_result_def io_defs
        new_events_def calls_simps calls_outside simp del: write_chunks.simps
        split: sum.splits prod.splits option.splits)
qed

text \<open>
  The stage order of C2 in the scenario, which runs every stage, and for an input that
  is no identifier, where no stage after Extract runs.
\<close>

theorem pipeline_stage_order_witness:
  "fst (try_block demo_services (take 8 demo_uuid) demo_url
          (snd (start_translation demo_uuid empty_world))) = Inr () \<and>
   outside_effects (new_events (snd (start_translation demo_uuid empty_world))
      (snd (try_block demo_services (take 8 demo_uuid) demo_url
          (snd (start_translation demo_uuid empty_world))))) =
     [FetchCall demo_id (Some LANGUAGES), FetchCall demo_id None,
      ModelCall (translate_request (lit ''Hello world'')),
      ModelCall (summarize_request (lit ''annyeong'')),
      FileWrite (json_name demo_id) (demo_doc demo_id (lit ''2024-01-02T03:04:05'')),
      FileWrite (html_name demo_id) (lit ''<html>'' @ demo_id)] \<and>
   fst (main_try demo_services (lit ''not a video'') empty_world) =
     Inl (Exn ValueError (INVALID_URL_MSG @ lit ''not a video'')) \<and>
   new_events empty_world (snd (main_try demo_services (lit ''not a video'') empty_world)) = [] \<and>
   files (snd (main_try demo_services (lit ''not a video'') empty_world)) = files empty_world"
proof -
  have s1: "stage_sequence demo_services demo_url =
      (Inr (demo_id, lit ''Hello world'', lit ''annyeong'', demo_summary),
       [FetchCall demo_id (Some LANGUAGES), FetchCall demo_id None,
        ModelCall (translate_request (lit ''Hello world'')),
        ModelCall (summarize_request (lit ''annyeong''))])"
    by (simp add: stage_sequence_def demo_run)
  have s2: "stage_sequence demo_services (lit ''not a video'') =
      (Inl (Exn ValueError (INVALID_URL_MSG @ lit ''not a video'')), [])"
    by (simp add: stage_sequence_def extract_video_id_def lit_def URL_PREFIXES_def
        starts_with_def match_id11_def is_id_char_def search_bare_def)
  have j: "jobs (snd (start_translation demo_uuid empty_world)) (take 8 demo_uuid) = Some new_job"
    by (simp add: start_translation_def)
  show ?thesis
    using pipeline_stage_order[of "snd (start_translation demo_uuid empty_world)"
        "take 8 demo_uuid" new_job demo_services "lit ''sk-demo''" demo_url]
      pipeline_stage_order[of empty_world "take 8 demo_uuid" new_job demo_services
        "lit ''sk-demo''" "lit ''not a video''"]
      j demo_key
    by (simp add: s1 s2 demo_html demo_write_json demo_write_html)
qed

text \<open>
  C2 as stated fails: with a model that answers the summary request with \<open>[]\<close>, every
  stage up to Summarize succeeds, report generation fails (a list has no \<open>get\<close>), the job
  ends failed with that error, and the JSON document of the run is in the store.
\<close>

theorem failed_run_persists_counterexample:
  "fst (try_block list_summary_services (take 8 demo_uuid) demo_url
          (snd (start_translation demo_uuid empty_world))) =
     Inl (no_attribute (JArr []) (lit ''get'')) \<and>
   map_sum id status (get_status (take 8 demo_uuid)
      (snd (submit_and_run list_summary_services demo_uuid demo_url empty_world))) = Inr Failed \<and>
   files (snd (submit_and_run list_summary_services demo_uuid demo_url empty_world))
      (json_name demo_id) =
     Some (demo_doc demo_id (lit ''2024-01-02T03:04:05''))"
  by (simp add: run_defs get_status_def demo_extract list_summary_run list_summary_fields
      make_result_def demo_chunks_def doc_chunks_def demo_doc_def quoted_def is_surrogate_def
      empty_world_def json_name_def html_name_def lit_def demo_id_def)

subsection \<open>Summary that is not JSON\<close>

lemma prose_summary_fields:
  "getenv_api_key prose_summary_services = Some (lit ''sk-demo'')"
  "api_fetch prose_summary_services = demo_fetch"
  "messages_create prose_summary_services = demo_create (lit ''Sure! Here it is'')"
  "json_loads prose_summary_services = demo_loads"
  by (simp_all add: prose_summary_services_def demo_services_def)

lemma prose_summary_run:
  "require_api_key prose_summary_services = Inr (lit ''sk-demo'')"
  "extract_transcript prose_summary_services vid =
     (Inr (lit ''Hello world''), [FetchCall vid (Some LANGUAGES), FetchCall vid None])"
  "translate prose_summary_services t = (Inr (lit ''annyeong''), [ModelCall (translate_request t)])"
  "messages_create prose_summary_services (summarize_request k) =
     Inr [TextBlock (lit ''Sure! Here it is'')]"
  "json_loads prose_summary_services (strip_fences (py_strip (lit ''Sure! Here it is''))) =
     Inl decode_error"
  by (simp_all add: require_api_key_def extract_transcript_def translate_def
      prose_summary_fields demo_fetch_def demo_create_def demo_loads_def demo_summary_text_def
      quoted_def translate_request_def summarize_request_def join_fragments_def
      strip_fences_def FENCE_JSON_def FENCE_def py_strip_def lit_def is_space_def
      starts_with_def closing_here_def)

text \<open>
  C7.  When the text of the model's answer, stripped of whitespace and fences, is rejected
  by \<open>json.loads\<close> with an error \<open>e\<close>, \<open>summarize\<close> fails with \<open>e\<close> (the code's
  \<open>JSONDecodeError\<close> is the summary parse error).  In a job whose earlier stages
  succeeded, \<open>process_video\<close> then ends without an exception: the job is marked failed,
  the text of \<open>e\<close> is its error, it has no result, and no file is written.
\<close>

theorem summary_parse_failure_marks_failed:
  assumes "jobs w job_id = Some j"
    and "require_api_key sv = Inr key"
    and "extract_video_id url = Inr vid"
    and "extract_transcript sv vid = (Inr original, c1)"
    and "translate sv original = (Inr korean, c2)"
    and "messages_create sv (summarize_request korean) = Inr (TextBlock txt # bs)"
    and "json_loads sv (strip_fences (py_strip txt)) = Inl e"
  shows "fst (summarize sv korean) = Inl e \<and>
    fst (process_video sv job_id url w) = None \<and>
    jobs (snd (process_video sv job_id url w)) job_id =
      Some (j\<lparr>status := Failed, video_id := Some vid, step := STEP_SUMMARIZE,
              error := Some (exn_str e)\<rparr>) \<and>
    files (snd (process_video sv job_id url w)) = files w"
proof -
  have s: "summarize sv korean = (Inl e, [ModelCall (summarize_request korean)])"
    using assms(6,7) by (simp add: summarize_def bind_sum_def parse_summary_def)
  show ?thesis
    using assms(1-5) s
    by (simp add: process_video_def try_block_def except_block_def io_defs)
qed

text \<open>C7 in the scenario with a model that answers the summary request in prose.\<close>

theorem summary_parse_failure_witness:
  "fst (summarize prose_summary_services (lit ''annyeong'')) = Inl decode_error \<and>
   fst (process_video prose_summary_services (take 8 demo_uuid) demo_url
          (snd (start_translation demo_uuid empty_world))) = None \<and>
   jobs (snd (process_video prose_summary_services (take 8 demo_uuid) demo_url
          (snd (start_translation demo_uuid empty_world)))) (take 8 demo_uuid) =
     Some (new_job\<lparr>status := Failed, video_id := Some demo_id, step := STEP_SUMMARIZE,
              error := Some (exn_str decode_error)\<rparr>) \<and>
   files (snd (process_video prose_summary_services (take 8 demo_uuid) demo_url
          (snd (start_translation demo_uuid empty_world)))) = files empty_world"
proof -
  have j: "jobs (snd (start_translation demo_uuid empty_world)) (take 8 demo_uuid) = Some new_job"
    and f: "files (snd (start_translation demo_uuid empty_world)) = files empty_world"
    by (simp_all add: start_translation_def)
  show ?thesis
    using summary_parse_failure_marks_failed[OF j prose_summary_run(1) demo_extract
        prose_summary_run(2) prose_summary_run(3) prose_summary_run(4) prose_summary_run(5)] f
    by simp
qed

subsection \<open>Submission\<close>

text \<open>
  C10.  For the text of a random UUID, \<open>start_translation\<close> returns its first eight
  characters and stores a fresh entry under them: pending, with no video identifier, no
  error and no result; the other entries stay as they are.  Whatever entry stood under
  that identifier is replaced: when a second submission gets the same eight characters
  after a first job has run, the entry of the first job is pending again.
\<close>

theorem submit_resets_entry:
  "is_uuid_text uuid \<longrightarrow>
     length (fst (start_translation uuid w)) = 8 \<and>
     fst (start_translation uuid w) = take 8 uuid \<and>
     jobs (snd (start_translation uuid w)) (fst (start_translation uuid w)) =
       Some \<lparr>status = Pending, video_id = None, step = STEP_WAIT, error = None, result = None,
             html_path = None\<rparr> \<and>
     (\<forall>k. k \<noteq> take 8 uuid \<longrightarrow> jobs (snd (start_translation uuid w)) k = jobs w k) \<and>
     (take 8 uuid2 = take 8 uuid \<longrightarrow>
        jobs (snd (start_translation uuid2 (snd (submit_and_run sv uuid url w)))) (take 8 uuid) =
          Some \<lparr>status = Pending, video_id = None, step = STEP_WAIT, error = None,
                result = None, html_path = None\<rparr>)"
  by (simp add: start_translation_def new_job_def is_uuid_text_def)

text \<open>
  C10 for two UUIDs that differ and share their first eight characters: the job of the
  first has completed when the second is submitted, and its entry is pending again.
\<close>

theorem submit_resets_entry_witness:
  "is_uuid_text demo_uuid \<and> is_uuid_text demo_uuid2 \<and> demo_uuid \<noteq> demo_uuid2 \<and>
   fst (start_translation demo_uuid empty_world) = lit ''3f2b8c1a'' \<and>
   fst (start_translation demo_uuid2 empty_world) = lit ''3f2b8c1a'' \<and>
   map_sum id status (get_status (lit ''3f2b8c1a'')
     (snd (submit_and_run demo_services demo_uuid demo_url empty_world))) = Inr Completed \<and>
   map_sum id status (get_status (lit ''3f2b8c1a'')
     (snd (start_translation demo_uuid2
        (snd (submit_and_run demo_services demo_uuid demo_url empty_world))))) = Inr Pending"
proof -
  have u: "is_uuid_text demo_uuid" "is_uuid_text demo_uuid2"
    by (simp_all add: is_uuid_text_def demo_uuid_def demo_uuid2_def lit_def is_hex_def
        upt_rec[of _ "numeral _"] upt_rec[of 0])
  have t: "take 8 demo_uuid2 = take 8 demo_uuid" "take 8 demo_uuid = lit ''3f2b8c1a''"
    "demo_uuid \<noteq> demo_uuid2"
    by (simp_all add: demo_uuid_def demo_uuid2_def lit_def)
  have c: "map_sum id status (get_status (take 8 demo_uuid)
     (snd (submit_and_run demo_services demo_uuid demo_url empty_world))) = Inr Completed"
    by (simp add: run_defs get_status_def demo_run empty_world_def)
  show ?thesis
    using submit_resets_entry[of demo_uuid empty_world demo_uuid2 demo_services demo_url]
      submit_resets_entry[of demo_uuid2 empty_world demo_uuid2 demo_services demo_url] u t c
    by (simp add: get_status_def)
qed

subsection \<open>Artifact store: save and load\<close>
















subsection \<open>Fences around the summary\<close>

lemma py_strip_blank: "blank a \<Longrightarrow> blank b \<Longrightarrow> py_strip (a @ s @ b) = py_strip s"
proof -
  assume a: "blank a" and b: "blank b"
  have 1: "dropWhile is_space (a @ s @ b) = dropWhile is_space (s @ b)"
    using a by (simp add: blank_def list_all_iff dropWhile_append2)
  show ?thesis
  proof (cases "\<forall>x\<in>set s. is_space x")
    case True
    then have "dropWhile is_space (s @ b) = []" and "dropWhile is_space s = []"
      using b by (simp_all add: blank_def list_all_iff)
    then show ?thesis unfolding py_strip_def 1 by (simp only:)
  next
    case False
    then have "dropWhile is_space (s @ b) = dropWhile is_space s @ b"
      by (auto simp add: dropWhile_append1)
    moreover have "dropWhile is_space (rev b @ t) = dropWhile is_space t" for t
    proof (rule dropWhile_append2)
      fix x
      assume "x \<in> set (rev b)"
      then show "is_space x" using b by (simp add: blank_def list_all_iff)
    qed
    ultimately show ?thesis unfolding py_strip_def 1 by (simp only: rev_append)
  qed
qed

lemma py_strip_id: "s \<noteq> [] \<Longrightarrow> \<not> is_space (hd s) \<Longrightarrow> \<not> is_space (last s) \<Longrightarrow> py_strip s = s"
proof -
  assume s: "s \<noteq> []" and h: "\<not> is_space (hd s)" and l: "\<not> is_space (last s)"
  from s h have "dropWhile is_space s = s" by (cases s) simp_all
  moreover from s l have "dropWhile is_space (rev s) = rev s"
    by (cases "rev s") (simp_all add: last_rev [symmetric] hd_rev)
  ultimately show ?thesis by (simp add: py_strip_def)
qed

text \<open>A stripped text is empty or has no whitespace at either end.\<close>

lemma py_strip_ends:
  "py_strip q = [] \<or> (\<not> is_space (hd (py_strip q)) \<and> \<not> is_space (last (py_strip q)))"
proof (cases "py_strip q = []")
  case True
  then show ?thesis by simp
next
  case False
  let ?d = "dropWhile is_space q"
  let ?r = "dropWhile is_space (rev ?d)"
  from False have r: "?r \<noteq> []" by (simp add: py_strip_def)
  then have "\<not> is_space (hd ?r)" by (rule hd_dropWhile)
  then have l: "\<not> is_space (last (py_strip q))"
    using r by (simp add: py_strip_def last_rev)
  have d: "?d \<noteq> []"
  proof
    assume "?d = []"
    then have "?r = []" by (simp only: rev.simps dropWhile.simps)
    with r show False ..
  qed
  then have hd: "\<not> is_space (hd ?d)" by (rule hd_dropWhile)
  have "rev ?d = takeWhile is_space (rev ?d) @ ?r" by simp
  then have "?d = rev ?r @ rev (takeWhile is_space (rev ?d))"
    by (metis rev_append rev_rev_ident)
  then have "hd ?d = hd (rev ?r)"
    using r by (metis hd_append2 rev_is_Nil_conv)
  with hd have "\<not> is_space (hd (py_strip q))" by (simp add: py_strip_def)
  with l show ?thesis by simp
qed

text \<open>A text is its stripped text between two runs of whitespace.\<close>

lemma py_strip_decompose: "\<exists>a b. blank a \<and> blank b \<and> q = a @ py_strip q @ b"
proof -
  let ?d = "dropWhile is_space q"
  let ?b = "rev (takeWhile is_space (rev ?d))"
  have "rev ?d = takeWhile is_space (rev ?d) @ dropWhile is_space (rev ?d)" by simp
  then have "?d = py_strip q @ ?b"
    unfolding py_strip_def by (metis rev_append rev_rev_ident)
  then have "q = takeWhile is_space q @ py_strip q @ ?b"
    by (metis takeWhile_dropWhile_id)
  moreover have "blank (takeWhile is_space q)"
    by (simp add: blank_def list_all_iff) (meson set_takeWhileD)
  moreover have "blank ?b"
    by (simp add: blank_def list_all_iff) (meson set_takeWhileD)
  ultimately show ?thesis by blast
qed

lemma fence_not_space: "\<not> is_space 96"
  by (simp add: is_space_def)

lemma FENCE_eq: "FENCE = [96, 96, 96]"
  by (simp add: FENCE_def lit_def)

lemma dropWhile_blank_fence: "blank W \<Longrightarrow> dropWhile is_space (W @ FENCE) = FENCE"
  by (simp add: blank_def list_all_iff dropWhile_append2 FENCE_eq fence_not_space)

text \<open>The closing fence, with the whitespace before it, is removed after a stripped text.\<close>

lemma sub_closing_fence:
  "blank W \<Longrightarrow> r = [] \<or> \<not> is_space (last r) \<Longrightarrow> sub_closing (r @ W @ FENCE) = r"
proof (induction r)
  case Nil
  from Nil(1) have d: "dropWhile is_space (W @ FENCE) = FENCE" by (rule dropWhile_blank_fence)
  obtain c s where cs: "W @ FENCE = c # s" by (cases "W @ FENCE") (simp_all add: FENCE_eq)
  with d have "closing_here (c # s)" by (simp add: closing_here_def)
  with cs d show ?case by (simp add: FENCE_eq)
next
  case (Cons c r)
  from Cons.prems(2) have l: "\<not> is_space (last (c # r))" by simp
  then have ex: "\<exists>x\<in>set (c # r). \<not> is_space x" using last_in_set by blast
  then obtain x where x: "x \<in> set (c # r)" "\<not> is_space x" by blast
  then have d: "dropWhile is_space ((c # r) @ W @ FENCE) = dropWhile is_space (c # r) @ W @ FENCE"
    by (rule dropWhile_append1)
  have ne: "dropWhile is_space (c # r) \<noteq> []" using ex by (simp del: dropWhile.simps)
  have "\<not> closing_here ((c # r) @ W @ FENCE)"
  proof
    assume "closing_here ((c # r) @ W @ FENCE)"
    then consider "dropWhile is_space (c # r) @ W @ FENCE = FENCE"
      | "dropWhile is_space (c # r) @ W @ FENCE = FENCE @ [10]"
      unfolding closing_here_def d by blast
    then show False
    proof cases
      case 1
      then have "length (dropWhile is_space (c # r) @ W @ FENCE) = length FENCE" by simp
      with ne show False by (simp del: dropWhile.simps)
    next
      case 2
      then have "last (dropWhile is_space (c # r) @ W @ FENCE) = last (FENCE @ [10])" by simp
      then show False by (simp add: FENCE_eq del: dropWhile.simps)
    qed
  qed
  moreover have "r = [] \<or> \<not> is_space (last r)" using l by (cases r) simp_all
  ultimately show ?case using Cons.IH Cons.prems(1) by simp
qed

text \<open>Nothing is removed from a stripped text that does not end with the fence.\<close>

lemma sub_closing_id:
  "\<not> ends_with FENCE s \<Longrightarrow> s = [] \<or> \<not> is_space (last s) \<Longrightarrow> sub_closing s = s"
proof (induction s)
  case Nil
  then show ?case by simp
next
  case (Cons c s)
  from Cons.prems(2) have l: "\<not> is_space (last (c # s))" by simp
  have split: "c # s = takeWhile is_space (c # s) @ dropWhile is_space (c # s)"
    by (simp del: takeWhile.simps dropWhile.simps)
  have "\<not> closing_here (c # s)"
  proof
    assume "closing_here (c # s)"
    then consider "dropWhile is_space (c # s) = FENCE" | "dropWhile is_space (c # s) = FENCE @ [10]"
      unfolding closing_here_def by blast
    then show False
    proof cases
      case 1
      have "c # s = takeWhile is_space (c # s) @ FENCE" using split unfolding 1 .
      then have "ends_with FENCE (c # s)" unfolding ends_with_iff ..
      with Cons.prems(1) show False by simp
    next
      case 2
      have "c # s = takeWhile is_space (c # s) @ FENCE @ [10]" using split unfolding 2 .
      then have "c # s = (takeWhile is_space (c # s) @ FENCE) @ [10]" by (simp only: append_assoc)
      then have "last (c # s) = 10" by (metis last_snoc)
      with l show False by (simp add: is_space_def)
    qed
  qed
  moreover have "\<not> ends_with FENCE s"
  proof
    assume "ends_with FENCE s"
    then obtain a where "s = a @ FENCE" unfolding ends_with_iff ..
    then have "c # s = (c # a) @ FENCE" by simp
    then have "ends_with FENCE (c # s)" unfolding ends_with_iff ..
    with Cons.prems(1) show False by simp
  qed
  moreover have "s = [] \<or> \<not> is_space (last s)" using l by (cases s) simp_all
  ultimately show ?case using Cons.IH by simp
qed

text \<open>What is parsed of a payload in a \<open>```json\<close> fence is the stripped payload.\<close>

lemma strip_json_fenced:
  assumes "blank lead" "blank ws1" "blank ws2" "blank trail"
  shows "strip_fences (py_strip (json_fenced lead ws1 q ws2 trail)) = py_strip q"
proof -
  let ?M = "FENCE_JSON @ ws1 @ q @ ws2 @ FENCE"
  have J: "FENCE_JSON = [96, 96, 96, 106, 115, 111, 110]" by (simp add: FENCE_JSON_def lit_def)
  have "py_strip (json_fenced lead ws1 q ws2 trail) = py_strip ?M"
    using py_strip_blank[OF assms(1) assms(4), of ?M] by (simp add: json_fenced_def)
  also have "py_strip ?M = ?M"
    by (rule py_strip_id) (simp_all add: J FENCE_eq fence_not_space)
  finally have s: "py_strip (json_fenced lead ws1 q ws2 trail) = ?M" .
  obtain a b where ab: "blank a" "blank b" "q = a @ py_strip q @ b"
    using py_strip_decompose by blast
  have W: "blank (b @ ws2)" using ab(2) assms(3) by (simp add: blank_def)
  have d1: "dropWhile is_space (ws1 @ q @ ws2 @ FENCE) = dropWhile is_space (q @ ws2 @ FENCE)"
    using assms(2) by (simp add: blank_def list_all_iff dropWhile_append2)
  have "q @ ws2 @ FENCE = (a @ py_strip q @ b) @ ws2 @ FENCE"
    using ab(3) by (rule arg_cong)
  then have d2: "q @ ws2 @ FENCE = a @ (py_strip q @ (b @ ws2) @ FENCE)"
    by (simp only: append_assoc)
  have d3: "dropWhile is_space (a @ (py_strip q @ (b @ ws2) @ FENCE)) =
      dropWhile is_space (py_strip q @ (b @ ws2) @ FENCE)"
    using ab(1) by (simp add: blank_def list_all_iff dropWhile_append2)
  have d: "dropWhile is_space (ws1 @ q @ ws2 @ FENCE) =
      dropWhile is_space (py_strip q @ (b @ ws2) @ FENCE)"
    using d1 d2 d3 by (simp only:)
  have "sub_closing (dropWhile is_space (py_strip q @ (b @ ws2) @ FENCE)) = py_strip q"
  proof (cases "py_strip q = []")
    case True
    then show ?thesis
      using dropWhile_blank_fence[OF W] sub_closing_fence[of "[]" "[]"]
      by (simp add: blank_def)
  next
    case False
    with py_strip_ends[of q] have e: "\<not> is_space (hd (py_strip q))" "\<not> is_space (last (py_strip q))"
      by simp_all
    from False e(1) have "dropWhile is_space (py_strip q @ (b @ ws2) @ FENCE) =
        py_strip q @ (b @ ws2) @ FENCE"
      by (cases "py_strip q") simp_all
    then show ?thesis using sub_closing_fence[OF W, of "py_strip q"] e(2) by simp
  qed
  with d show ?thesis
    unfolding s by (simp add: strip_fences_def starts_with_def J)
qed

lemma strip_plain:
  assumes "\<not> starts_with FENCE_JSON (py_strip q)" "\<not> ends_with FENCE (py_strip q)"
  shows "strip_fences (py_strip q) = py_strip q"
  using assms py_strip_ends[of q] sub_closing_id[of "py_strip q"]
  by (auto simp add: strip_fences_def)

text \<open>
  The fence that the code removes.  When the model answers with a payload in a
  \<open>```json\<close> fence (whitespace allowed around the fences and around the payload),
  \<open>summarize\<close> returns what it returns when the model answers with the payload alone,
  namely what the codec makes of the stripped payload; the payload is any text that,
  stripped, neither starts with \<open>```json\<close> nor ends with three backquotes, as is every
  JSON text.
\<close>

lemma json_fence_transparent:
  assumes "blank lead" "blank ws1" "blank ws2" "blank trail"
    and "\<not> starts_with FENCE_JSON (py_strip q)" "\<not> ends_with FENCE (py_strip q)"
    and "messages_create sv1 (summarize_request k) =
           Inr (TextBlock (json_fenced lead ws1 q ws2 trail) # bs1)"
    and "messages_create sv2 (summarize_request k) = Inr (TextBlock q # bs2)"
    and "json_loads sv1 = json_loads sv2"
  shows "summarize sv1 k = summarize sv2 k \<and>
         summarize sv2 k = (json_loads sv2 (py_strip q), [ModelCall (summarize_request k)])"
  using assms(7-9) strip_json_fenced[OF assms(1-4), of q] strip_plain[OF assms(5,6)]
  by (simp add: summarize_def bind_sum_def parse_summary_def)

lemma demo_text_stripped: "py_strip demo_summary_text = demo_summary_text"
  by (rule py_strip_id) (simp_all add: demo_summary_text_def quoted_def lit_def is_space_def)

lemma fence_services:
  "messages_create plain_services = demo_create demo_summary_text"
  "messages_create bare_fence_services = demo_create demo_bare_fenced"
  "json_loads plain_services = demo_loads"
  "json_loads bare_fence_services = demo_loads"
  by (simp_all add: plain_services_def bare_fence_services_def demo_fields)

text \<open>In the scenario: the fenced summary of the scenario and the summary alone.\<close>

lemma json_fence_transparent_demo:
  "summarize demo_services (lit ''annyeong'') = summarize plain_services (lit ''annyeong'') \<and>
   summarize plain_services (lit ''annyeong'') =
     (Inr demo_summary, [ModelCall (summarize_request (lit ''annyeong''))])"
proof -
  have 1: "blank []" "blank [10]"
    by (simp_all add: blank_def is_space_def)
  have 2: "\<not> starts_with FENCE_JSON (py_strip demo_summary_text)"
    unfolding demo_text_stripped
    by (simp add: starts_with_def FENCE_JSON_def demo_summary_text_def lit_def)
  have 3: "\<not> ends_with FENCE (py_strip demo_summary_text)"
    unfolding demo_text_stripped
    by (simp add: ends_with_def FENCE_def demo_summary_text_def quoted_def lit_def)
  have 4: "messages_create demo_services (summarize_request (lit ''annyeong'')) =
      Inr (TextBlock (json_fenced [] [10] demo_summary_text [10] []) # [])"
    by (simp add: demo_fields demo_create_def summarize_request_def json_fenced_def
        demo_fenced_def FENCE_def FENCE_JSON_def)
  have 5: "messages_create plain_services (summarize_request (lit ''annyeong'')) =
      Inr (TextBlock demo_summary_text # [])"
    by (simp add: fence_services demo_create_def summarize_request_def)
  have 6: "json_loads demo_services = json_loads plain_services"
    by (simp add: fence_services demo_fields)
  have 7: "json_loads plain_services (py_strip demo_summary_text) = Inr demo_summary"
    unfolding demo_text_stripped by (simp add: fence_services demo_loads_def)
  show ?thesis
    using json_fence_transparent[OF 1(1) 1(2) 1(2) 1(1) 2 3 4 5 6] by (simp only: 7)
qed

text \<open>
  The fence that the code half removes.  Of a payload in a fence whose opening
  backquotes are followed by whitespace (no language tag), only the closing fence is
  removed: the opening fence stays in the text given to the codec.
\<close>

lemma bare_fence_keeps_opening:
  assumes "blank ws1" "ws1 \<noteq> []" "blank ws2" "q \<noteq> []" "\<not> is_space (last q)"
  shows "strip_fences (py_strip (FENCE @ ws1 @ q @ ws2 @ FENCE)) = FENCE @ ws1 @ q"
proof -
  let ?M = "FENCE @ ws1 @ q @ ws2 @ FENCE"
  have s: "py_strip ?M = ?M"
    by (rule py_strip_id) (simp_all add: FENCE_eq fence_not_space)
  obtain c ws where ws: "ws1 = c # ws" "is_space c"
    using assms(1,2) by (cases ws1) (simp_all add: blank_def)
  then have "c \<noteq> 106" by (auto simp add: is_space_def)
  then have n: "\<not> starts_with FENCE_JSON ?M"
    by (simp add: starts_with_def FENCE_JSON_def FENCE_eq ws(1) lit_def)
  have "sub_closing ((FENCE @ ws1 @ q) @ ws2 @ FENCE) = FENCE @ ws1 @ q"
    by (rule sub_closing_fence) (use assms in simp_all)
  then show ?thesis
    by (simp add: s strip_fences_def n)
qed

text \<open>
  C6 at a failing input: the model answers with the summary of the scenario in a fence
  with no language tag.  The text given to the codec starts with the opening fence, the
  codec rejects it and \<open>summarize\<close> raises, while the summary alone is parsed.
\<close>

theorem bare_fence_half_stripped:
  "strip_fences (py_strip demo_bare_fenced) = FENCE @ [10] @ demo_summary_text \<and>
   fst (summarize bare_fence_services (lit ''annyeong'')) = Inl decode_error \<and>
   fst (summarize plain_services (lit ''annyeong'')) = Inr demo_summary"
proof -
  have s: "strip_fences (py_strip demo_bare_fenced) = FENCE @ [10] @ demo_summary_text"
    by (simp add: demo_bare_fenced_def demo_summary_text_def quoted_def strip_fences_def
        FENCE_JSON_def FENCE_def py_strip_def lit_def is_space_def starts_with_def
        closing_here_def)
  have l: "demo_loads (FENCE @ 10 # demo_summary_text) = Inl decode_error"
    by (simp add: demo_loads_def FENCE_def demo_summary_text_def quoted_def lit_def
        starts_with_def)
  have p: "strip_fences (py_strip demo_summary_text) = demo_summary_text"
    by (simp add: demo_summary_text_def quoted_def strip_fences_def
        FENCE_JSON_def FENCE_def py_strip_def lit_def is_space_def starts_with_def
        closing_here_def)
  have 1: "fst (summarize bare_fence_services (lit ''annyeong'')) = Inl decode_error"
    by (simp add: summarize_def bind_sum_def parse_summary_def fence_services demo_create_def
        summarize_request_def s l)
  have 2: "fst (summarize plain_services (lit ''annyeong'')) = Inr demo_summary"
    by (simp add: summarize_def bind_sum_def parse_summary_def fence_services demo_create_def
        summarize_request_def p demo_loads_def)
  from s 1 2 show ?thesis by simp
qed

end
